theory Spec2Isabelle
  imports Main "HOL-Library.Sublist"
begin

section \<open>The AWS kill switch: request dispatcher and its two executors\<close>

text \<open>
  A shallow embedding of \<^verbatim>\<open>awskillswitch.go\<close>. The handler talks to the world only
  through the AWS SDK, \<^verbatim>\<open>os.ReadFile\<close> and \<^verbatim>\<open>encoding/json\<close>; none of them is part of the
  repository, so they are parameters of the model (the record \<open>env\<close> below). Every call
  the handler makes is appended to a trace, together with what came back, and each
  external operation may answer depending on the whole trace so far: any deterministic
  behaviour of the providers is an \<open>env\<close>.

  A Go \<^verbatim>\<open>error\<close> is modelled by its message (what \<^verbatim>\<open>%v\<close> prints); \<^verbatim>\<open>nil\<close> is \<open>None\<close>.
  \<^verbatim>\<open>fmt.Sprintf\<close> and \<^verbatim>\<open>fmt.Errorf\<close> with \<^verbatim>\<open>%s\<close>/\<^verbatim>\<open>%v\<close> verbs are string concatenation.
  The SDK hands every response field over as a pointer; the fields the handler reads
  (\<^verbatim>\<open>PolicyArn\<close>, the inline policy names, \<^verbatim>\<open>Policy.PolicySummary.Id\<close>) are present in
  every successful response of the services and are modelled as plain strings.
  The \<^verbatim>\<open>ctx\<close> argument is never used by the code and is left out.
\<close>

subsection \<open>Data\<close>

type_synonym go_error = string

type_synonym Action = string

definition ApplySCP :: Action where
  "ApplySCP = ''apply_scp''"

definition DeleteRole :: Action where
  "DeleteRole = ''delete_role''"

definition DetachPolicies :: Action where
  "DetachPolicies = ''detach_policies''"

definition DefaultRegion :: string where
  "DefaultRegion = ''us-east-1''"

record Request =
  Action :: Action
  TargetAccountID :: string
  RoleToAssume :: string
  TargetRoleName :: string
  OrgManagementAccountID :: string
  Region :: string

record SwitchPolicies =
  SCPolicy :: string

record Config =
  SwitchConfigVersion :: string
  SwitchPolicies :: SwitchPolicies

text \<open>\<^verbatim>\<open>session.Session\<close>: only the region the handler configures matters here.\<close>

record session =
  sess_region :: string

text \<open>
  A service client (\<^verbatim>\<open>organizations.New\<close>, \<^verbatim>\<open>iam.New\<close>): the session it was built from
  and the credentials it signs with. \<^verbatim>\<open>stscreds.NewCredentials\<close> is lazy: the role whose
  ARN it is given is assumed when the client makes a call, so the ARN travels with the
  client and appears in every call of the trace.
\<close>

record client =
  client_region :: string
  client_creds :: string

text \<open>\<^verbatim>\<open>iam.AttachedPolicy\<close>.\<close>

record AttachedPolicy =
  PolicyArn :: string
  PolicyName :: string

subsection \<open>Calls, traces and the environment\<close>

datatype call =
    Session_NewSession string
  | OS_ReadFile string
  | Org_CreatePolicy client string string string string
  | Org_AttachPolicy client string string
  | IAM_ListAttachedRolePolicies client string
  | IAM_DetachRolePolicy client string string
  | IAM_ListRolePolicies client string
  | IAM_DeleteRolePolicy client string string
  | IAM_DeleteRole client string

text \<open>
  What a call came back with: the error, or what the handler gets on success (nothing
  it reads, the file's bytes, the new policy's id, or the enumerated policies).
\<close>

datatype response =
    Failed go_error
  | Done
  | Bytes string
  | Created string
  | Policies "AttachedPolicy list"
  | Names "string list"

text \<open>An event is a call together with its response.\<close>

type_synonym event = "call \<times> response"

type_synonym trace = "event list"

record env =
  session_NewSession :: "trace \<Rightarrow> string \<Rightarrow> go_error option"
  os_ReadFile :: "trace \<Rightarrow> string \<Rightarrow> go_error + string"
  json_Unmarshal :: "string \<Rightarrow> go_error + Config"
  organizations_CreatePolicy ::
    "trace \<Rightarrow> client \<Rightarrow> string \<Rightarrow> string \<Rightarrow> string \<Rightarrow> string \<Rightarrow> go_error + string"
  organizations_AttachPolicy :: "trace \<Rightarrow> client \<Rightarrow> string \<Rightarrow> string \<Rightarrow> go_error option"
  iam_ListAttachedRolePolicies :: "trace \<Rightarrow> client \<Rightarrow> string \<Rightarrow> go_error + AttachedPolicy list"
  iam_DetachRolePolicy :: "trace \<Rightarrow> client \<Rightarrow> string \<Rightarrow> string \<Rightarrow> go_error option"
  iam_ListRolePolicies :: "trace \<Rightarrow> client \<Rightarrow> string \<Rightarrow> go_error + string list"
  iam_DeleteRolePolicy :: "trace \<Rightarrow> client \<Rightarrow> string \<Rightarrow> string \<Rightarrow> go_error option"
  iam_DeleteRole :: "trace \<Rightarrow> client \<Rightarrow> string \<Rightarrow> go_error option"

text \<open>
  What \<^verbatim>\<open>HandleRequest\<close> does: it returns its pair \<^verbatim>\<open>(string, error)\<close>, or it panics
  (\<^verbatim>\<open>session.Must\<close> panics with the error of \<^verbatim>\<open>session.NewSession\<close>).
\<close>

datatype outcome =
    Returned string "go_error option"
  | Panicked go_error

text \<open>
  \<^verbatim>\<open>applySCP\<close> reads \<^verbatim>\<open>policyResp.Policy.PolicySummary.Id\<close> (lines 116 and 125) without
  a nil check, and the two error paths of \<^verbatim>\<open>manageRole\<close> read \<^verbatim>\<open>*policy.PolicyArn\<close> and
  \<^verbatim>\<open>*policyName\<close> (lines 146 and 163): on a successful response that lacks the field the
  Go code panics. The environment hands these fields over as strings, so the model
  describes the runs in which the responses carry them and has no branch for that panic.
\<close>

subsection \<open>Classifying calls\<close>

text \<open>
  Building the session and reading the configuration file are local; the seven
  remaining calls go to the Organizations and IAM services, under assumed credentials.
\<close>

fun is_cloud_call :: "call \<Rightarrow> bool" where
  "is_cloud_call (Session_NewSession _) = False"
| "is_cloud_call (OS_ReadFile _) = False"
| "is_cloud_call _ = True"

fun is_read_config :: "call \<Rightarrow> bool" where
  "is_read_config (OS_ReadFile _) = True"
| "is_read_config _ = False"

fun is_create_policy :: "call \<Rightarrow> bool" where
  "is_create_policy (Org_CreatePolicy _ _ _ _ _) = True"
| "is_create_policy _ = False"

fun is_attach_policy :: "call \<Rightarrow> bool" where
  "is_attach_policy (Org_AttachPolicy _ _ _) = True"
| "is_attach_policy _ = False"

fun is_detach :: "call \<Rightarrow> bool" where
  "is_detach (IAM_DetachRolePolicy _ _ _) = True"
| "is_detach _ = False"

fun is_inline_list :: "call \<Rightarrow> bool" where
  "is_inline_list (IAM_ListRolePolicies _ _) = True"
| "is_inline_list _ = False"

fun is_inline_delete :: "call \<Rightarrow> bool" where
  "is_inline_delete (IAM_DeleteRolePolicy _ _ _) = True"
| "is_inline_delete _ = False"

fun is_role_delete :: "call \<Rightarrow> bool" where
  "is_role_delete (IAM_DeleteRole _ _) = True"
| "is_role_delete _ = False"

text \<open>The client a cloud call is made with.\<close>

fun call_client :: "call \<Rightarrow> client option" where
  "call_client (Session_NewSession _) = None"
| "call_client (OS_ReadFile _) = None"
| "call_client (Org_CreatePolicy c _ _ _ _) = Some c"
| "call_client (Org_AttachPolicy c _ _) = Some c"
| "call_client (IAM_ListAttachedRolePolicies c _) = Some c"
| "call_client (IAM_DetachRolePolicy c _ _) = Some c"
| "call_client (IAM_ListRolePolicies c _) = Some c"
| "call_client (IAM_DeleteRolePolicy c _ _) = Some c"
| "call_client (IAM_DeleteRole c _) = Some c"

definition calls :: "(call \<Rightarrow> bool) \<Rightarrow> trace \<Rightarrow> trace" where
  "calls P tr = filter (\<lambda>ev. P (fst ev)) tr"

fun failed :: "response \<Rightarrow> bool" where
  "failed (Failed _) = True"
| "failed _ = False"

definition succeeded :: "event \<Rightarrow> bool" where
  "succeeded ev = (\<not> failed (snd ev))"

text \<open>The events a run appended to the trace \<open>tr\<close> it started from.\<close>

definition issued :: "trace \<Rightarrow> trace \<Rightarrow> trace" where
  "issued tr tr' = drop (length tr) tr'"

subsection \<open>loadConfig\<close>

definition loadConfig :: "env \<Rightarrow> trace \<Rightarrow> string \<Rightarrow> (go_error + Config) \<times> trace" where
  "loadConfig env tr filename =
     (case os_ReadFile env tr filename of
        Inl err \<Rightarrow> (Inl err, tr @ [(OS_ReadFile filename, Failed err)])
      | Inr configFile \<Rightarrow>
          (case json_Unmarshal env configFile of
             Inl err \<Rightarrow> (Inl err, tr @ [(OS_ReadFile filename, Bytes configFile)])
           | Inr config \<Rightarrow> (Inr config, tr @ [(OS_ReadFile filename, Bytes configFile)])))"

subsection \<open>applySCP\<close>

definition applySCP ::
  "env \<Rightarrow> trace \<Rightarrow> session \<Rightarrow> string \<Rightarrow> string \<Rightarrow> string \<Rightarrow> Config
     \<Rightarrow> (string \<times> go_error option) \<times> trace" where
  "applySCP env tr sess managementAccount targetAccountID roleToAssume config =
     (let creds = ''arn:aws:iam::'' @ managementAccount @ '':role/'' @ roleToAssume;
          svc = \<lparr>client_region = sess_region sess, client_creds = creds\<rparr>;
          scpPolicy = SCPolicy (SwitchPolicies config);
          createPolicy = Org_CreatePolicy svc scpPolicy ''Highly Restrictive SCP''
                           ''HighlyRestrictiveSCP'' ''SERVICE_CONTROL_POLICY''
      in case organizations_CreatePolicy env tr svc scpPolicy ''Highly Restrictive SCP''
                ''HighlyRestrictiveSCP'' ''SERVICE_CONTROL_POLICY'' of
           Inl err \<Rightarrow>
             (('''', Some (''error creating SCP: '' @ err)), tr @ [(createPolicy, Failed err)])
         | Inr policyId \<Rightarrow>
             (let tr1 = tr @ [(createPolicy, Created policyId)];
                  attachPolicy = Org_AttachPolicy svc policyId targetAccountID
              in case organizations_AttachPolicy env tr1 svc policyId targetAccountID of
                   Some err \<Rightarrow>
                     (('''', Some (''error attaching SCP to account '' @ targetAccountID
                                    @ '': '' @ err)),
                      tr1 @ [(attachPolicy, Failed err)])
                 | None \<Rightarrow>
                     ((''SCP applied to account '' @ targetAccountID @ '' with policy ID ''
                         @ policyId, None),
                      tr1 @ [(attachPolicy, Done)])))"

subsection \<open>manageRole\<close>

text \<open>
  The two \<^verbatim>\<open>for ... range\<close> statements. Each returns the error that makes \<^verbatim>\<open>manageRole\<close>
  return from inside the loop, or \<open>None\<close> when the loop ran to its end.
\<close>

fun detach_loop ::
  "env \<Rightarrow> trace \<Rightarrow> client \<Rightarrow> string \<Rightarrow> string \<Rightarrow> AttachedPolicy list
     \<Rightarrow> go_error option \<times> trace" where
  "detach_loop env tr svc targetRoleName targetAccountID [] = (None, tr)"
| "detach_loop env tr svc targetRoleName targetAccountID (policy # rest) =
     (case iam_DetachRolePolicy env tr svc targetRoleName (PolicyArn policy) of
        Some err \<Rightarrow>
          (Some (''error detaching policy '' @ PolicyArn policy @ '' from role ''
                   @ targetRoleName @ '' in account '' @ targetAccountID @ '': '' @ err),
           tr @ [(IAM_DetachRolePolicy svc targetRoleName (PolicyArn policy), Failed err)])
      | None \<Rightarrow>
          detach_loop env
            (tr @ [(IAM_DetachRolePolicy svc targetRoleName (PolicyArn policy), Done)])
            svc targetRoleName targetAccountID rest)"

fun delete_inline_loop ::
  "env \<Rightarrow> trace \<Rightarrow> client \<Rightarrow> string \<Rightarrow> string \<Rightarrow> string list
     \<Rightarrow> go_error option \<times> trace" where
  "delete_inline_loop env tr svc targetRoleName targetAccountID [] = (None, tr)"
| "delete_inline_loop env tr svc targetRoleName targetAccountID (policyName # rest) =
     (case iam_DeleteRolePolicy env tr svc targetRoleName policyName of
        Some err \<Rightarrow>
          (Some (''error deleting inline policy '' @ policyName @ '' from role ''
                   @ targetRoleName @ '' in account '' @ targetAccountID @ '': '' @ err),
           tr @ [(IAM_DeleteRolePolicy svc targetRoleName policyName, Failed err)])
      | None \<Rightarrow>
          delete_inline_loop env
            (tr @ [(IAM_DeleteRolePolicy svc targetRoleName policyName, Done)])
            svc targetRoleName targetAccountID rest)"

definition manageRole ::
  "env \<Rightarrow> trace \<Rightarrow> session \<Rightarrow> Action \<Rightarrow> string \<Rightarrow> string \<Rightarrow> string
     \<Rightarrow> (string \<times> go_error option) \<times> trace" where
  "manageRole env tr sess action targetAccountID roleToAssume targetRoleName =
     (let creds = ''arn:aws:iam::'' @ targetAccountID @ '':role/'' @ roleToAssume;
          svc = \<lparr>client_region = sess_region sess, client_creds = creds\<rparr>
      in case iam_ListAttachedRolePolicies env tr svc targetRoleName of
           Inl err \<Rightarrow>
             (('''', Some (''error listing attached policies for role '' @ targetRoleName
                            @ '' in account '' @ targetAccountID @ '': '' @ err)),
              tr @ [(IAM_ListAttachedRolePolicies svc targetRoleName, Failed err)])
         | Inr attachedPolicies \<Rightarrow>
             (case detach_loop env
                     (tr @ [(IAM_ListAttachedRolePolicies svc targetRoleName,
                        Policies attachedPolicies)])
                     svc targetRoleName targetAccountID attachedPolicies of
                (Some e, tr2) \<Rightarrow> (('''', Some e), tr2)
              | (None, tr2) \<Rightarrow>
                  (case iam_ListRolePolicies env tr2 svc targetRoleName of
                     Inl err \<Rightarrow>
                       (('''', Some (''error listing inline policies for role ''
                                      @ targetRoleName @ '' in account '' @ targetAccountID
                                      @ '': '' @ err)),
                        tr2 @ [(IAM_ListRolePolicies svc targetRoleName, Failed err)])
                   | Inr policyNames \<Rightarrow>
                       (case delete_inline_loop env
                               (tr2 @ [(IAM_ListRolePolicies svc targetRoleName,
                                        Names policyNames)])
                               svc targetRoleName targetAccountID policyNames of
                          (Some e, tr4) \<Rightarrow> (('''', Some e), tr4)
                        | (None, tr4) \<Rightarrow>
                            (if action = DeleteRole then
                               (case iam_DeleteRole env tr4 svc targetRoleName of
                                  Some err \<Rightarrow>
                                    (('''', Some (''error deleting role '' @ targetRoleName
                                                   @ '' in account '' @ targetAccountID
                                                   @ '': '' @ err)),
                                     tr4 @ [(IAM_DeleteRole svc targetRoleName, Failed err)])
                                | None \<Rightarrow>
                                    ((''Role '' @ targetRoleName
                                        @ '' and its policies are detached and deleted in account ''
                                        @ targetAccountID, None),
                                     tr4 @ [(IAM_DeleteRole svc targetRoleName, Done)]))
                             else
                               ((''Policies detached from role '' @ targetRoleName
                                   @ '' in account '' @ targetAccountID, None),
                                tr4))))))"

subsection \<open>HandleRequest\<close>

definition HandleRequest :: "env \<Rightarrow> Request \<Rightarrow> outcome \<times> trace" where
  "HandleRequest env request0 =
     (if TargetAccountID request0 = '''' \<or> RoleToAssume request0 = '''' then
        (Returned '''' (Some ''targetAccountID and roleToAssume are required''), [])
      else
        (let request = (if Region request0 = '''' then request0\<lparr>Region := DefaultRegion\<rparr>
                        else request0)
         in case session_NewSession env [] (Region request) of
              Some err \<Rightarrow> (Panicked err, [(Session_NewSession (Region request), Failed err)])
            | None \<Rightarrow>
                (let sess = \<lparr>sess_region = Region request\<rparr>;
                     tr = [(Session_NewSession (Region request), Done)]
                 in if Action request = ApplySCP then
                      (if OrgManagementAccountID request = '''' then
                         (Returned '''' (Some ''managementAccount is required for apply_scp action''),
                          tr)
                       else
                         (case loadConfig env tr ''switch.conf'' of
                            (Inl err, tr1) \<Rightarrow>
                              (Returned '''' (Some (''error loading config file: '' @ err)), tr1)
                          | (Inr config, tr1) \<Rightarrow>
                              (case applySCP env tr1 sess (OrgManagementAccountID request)
                                      (TargetAccountID request) (RoleToAssume request) config of
                                 ((s, e), tr2) \<Rightarrow> (Returned s e, tr2))))
                    else if Action request = DetachPolicies \<or> Action request = DeleteRole then
                      (if TargetRoleName request = '''' then
                         (Returned ''''
                            (Some ''targetRoleName is required for delete_role and detach_policies actions''),
                          tr)
                       else
                         (case manageRole env tr sess (Action request) (TargetAccountID request)
                                 (RoleToAssume request) (TargetRoleName request) of
                            ((s, e), tr2) \<Rightarrow> (Returned s e, tr2)))
                    else (Returned '''' (Some ''invalid action''), tr))))"

subsection \<open>Vocabulary for the statements\<close>

text \<open>
  The client each executor builds, the event of a successful detach or inline delete,
  and the events of a complete cleanup: list the attached policies, detach each, list
  the inline policies, delete each.
\<close>

definition assumed_client :: "session \<Rightarrow> string \<Rightarrow> string \<Rightarrow> client" where
  "assumed_client sess account role =
     \<lparr>client_region = sess_region sess,
      client_creds = ''arn:aws:iam::'' @ account @ '':role/'' @ role\<rparr>"

definition detach_ok :: "client \<Rightarrow> string \<Rightarrow> AttachedPolicy \<Rightarrow> event" where
  "detach_ok svc r p = (IAM_DetachRolePolicy svc r (PolicyArn p), Done)"

definition delete_ok :: "client \<Rightarrow> string \<Rightarrow> string \<Rightarrow> event" where
  "delete_ok svc r n = (IAM_DeleteRolePolicy svc r n, Done)"

definition cleanup_events :: "client \<Rightarrow> string \<Rightarrow> AttachedPolicy list \<Rightarrow> string list \<Rightarrow> trace" where
  "cleanup_events svc r ps ns =
     (IAM_ListAttachedRolePolicies svc r, Policies ps) # map (detach_ok svc r) ps
       @ (IAM_ListRolePolicies svc r, Names ns) # map (delete_ok svc r) ns"

text \<open>
  The create-policy call \<^verbatim>\<open>applySCP\<close> issues for a configuration, and the region a
  request ends up with once the default is filled in.
\<close>

definition scp_create_call :: "client \<Rightarrow> Config \<Rightarrow> call" where
  "scp_create_call svc config =
     Org_CreatePolicy svc (SCPolicy (SwitchPolicies config)) ''Highly Restrictive SCP''
       ''HighlyRestrictiveSCP'' ''SERVICE_CONTROL_POLICY''"

definition effective_region :: "Request \<Rightarrow> string" where
  "effective_region request = (if Region request = '''' then DefaultRegion else Region request)"

text \<open>Whether an outcome is a returned pair.\<close>

fun returned :: "outcome \<Rightarrow> bool" where
  "returned (Returned _ _) = True"
| "returned (Panicked _) = False"

subsection \<open>Concrete environments and requests\<close>

text \<open>
  An environment in which every external operation succeeds: the role has two attached
  managed policies and one inline policy, and the organization hands out the policy id
  \<open>p-1\<close>. The variants below make one operation fail.
\<close>

definition demo_policies :: "AttachedPolicy list" where
  "demo_policies =
     [\<lparr>PolicyArn = ''arn:p1'', PolicyName = ''p1''\<rparr>,
      \<lparr>PolicyArn = ''arn:p2'', PolicyName = ''p2''\<rparr>]"

definition healthy_env :: env where
  "healthy_env =
     \<lparr>session_NewSession = (\<lambda>tr region. None),
      os_ReadFile = (\<lambda>tr filename. Inr ''{}''),
      json_Unmarshal =
        (\<lambda>bytes. Inr \<lparr>SwitchConfigVersion = ''1'',
                       SwitchPolicies = \<lparr>SCPolicy = ''{}''\<rparr>\<rparr>),
      organizations_CreatePolicy = (\<lambda>tr svc content description name type. Inr ''p-1''),
      organizations_AttachPolicy = (\<lambda>tr svc policyId targetId. None),
      iam_ListAttachedRolePolicies = (\<lambda>tr svc roleName. Inr demo_policies),
      iam_DetachRolePolicy = (\<lambda>tr svc roleName policyArn. None),
      iam_ListRolePolicies = (\<lambda>tr svc roleName. Inr [''inline1'']),
      iam_DeleteRolePolicy = (\<lambda>tr svc roleName policyName. None),
      iam_DeleteRole = (\<lambda>tr svc roleName. None)\<rparr>"

definition no_session_env :: env where
  "no_session_env = healthy_env\<lparr>session_NewSession := (\<lambda>tr region. Some ''bad CA bundle'')\<rparr>"

definition no_config_env :: env where
  "no_config_env = healthy_env\<lparr>os_ReadFile := (\<lambda>tr filename. Inl ''no such file'')\<rparr>"

definition bad_config_env :: env where
  "bad_config_env = healthy_env\<lparr>json_Unmarshal := (\<lambda>bytes. Inl ''unexpected end'')\<rparr>"

definition no_attach_env :: env where
  "no_attach_env =
     healthy_env\<lparr>organizations_AttachPolicy := (\<lambda>tr svc policyId targetId. Some ''denied'')\<rparr>"


definition demo_session :: session where
  "demo_session = \<lparr>sess_region = ''us-east-1''\<rparr>"

definition demo_config :: Config where
  "demo_config = \<lparr>SwitchConfigVersion = ''1'', SwitchPolicies = \<lparr>SCPolicy = ''{}''\<rparr>\<rparr>"

definition demo_request :: Request where
  "demo_request =
     \<lparr>Action = ''detach_policies'', TargetAccountID = ''111'', RoleToAssume = ''ks'',
      TargetRoleName = ''victim'', OrgManagementAccountID = ''999'', Region = ''''\<rparr>"

section \<open>The two iterations and the shape of a run of manageRole\<close>

lemma detach_loop_run:
  assumes "detach_loop env tr svc r a ps = (res, tr')"
  shows "(res = None \<and> tr' = tr @ map (detach_ok svc r) ps) \<or>
         (\<exists>i e. i < length ps \<and>
            res = Some (''error detaching policy '' @ PolicyArn (ps ! i) @ '' from role ''
                          @ r @ '' in account '' @ a @ '': '' @ e) \<and>
            tr' = tr @ map (detach_ok svc r) (take i ps)
                     @ [(IAM_DetachRolePolicy svc r (PolicyArn (ps ! i)), Failed e)])"
  using assms
proof (induction ps arbitrary: tr)
  case Nil
  then show ?case by simp
next
  case (Cons p ps)
  show ?case
  proof (cases "iam_DetachRolePolicy env tr svc r (PolicyArn p)")
    case (Some e)
    with Cons.prems have "res = Some (''error detaching policy '' @ PolicyArn p @ '' from role ''
                          @ r @ '' in account '' @ a @ '': '' @ e)"
      and "tr' = tr @ [(IAM_DetachRolePolicy svc r (PolicyArn p), Failed e)]"
      by simp_all
    then have "0 < length (p # ps) \<and>
            res = Some (''error detaching policy '' @ PolicyArn ((p # ps) ! 0) @ '' from role ''
                          @ r @ '' in account '' @ a @ '': '' @ e) \<and>
            tr' = tr @ map (detach_ok svc r) (take 0 (p # ps))
                     @ [(IAM_DetachRolePolicy svc r (PolicyArn ((p # ps) ! 0)), Failed e)]"
      by simp
    then show ?thesis by blast
  next
    case None
    with Cons.prems have run: "detach_loop env (tr @ [detach_ok svc r p]) svc r a ps = (res, tr')"
      by (simp add: detach_ok_def)
    from Cons.IH [OF run] show ?thesis
    proof
      assume "res = None \<and> tr' = (tr @ [detach_ok svc r p]) @ map (detach_ok svc r) ps"
      then show ?thesis by simp
    next
      assume "\<exists>i e. i < length ps \<and>
            res = Some (''error detaching policy '' @ PolicyArn (ps ! i) @ '' from role ''
                          @ r @ '' in account '' @ a @ '': '' @ e) \<and>
            tr' = (tr @ [detach_ok svc r p]) @ map (detach_ok svc r) (take i ps)
                     @ [(IAM_DetachRolePolicy svc r (PolicyArn (ps ! i)), Failed e)]"
      then obtain i e where i: "i < length ps"
        and res: "res = Some (''error detaching policy '' @ PolicyArn (ps ! i) @ '' from role ''
                          @ r @ '' in account '' @ a @ '': '' @ e)"
        and tr': "tr' = (tr @ [detach_ok svc r p]) @ map (detach_ok svc r) (take i ps)
                     @ [(IAM_DetachRolePolicy svc r (PolicyArn (ps ! i)), Failed e)]"
        by blast
      have "Suc i < length (p # ps) \<and>
            res = Some (''error detaching policy '' @ PolicyArn ((p # ps) ! Suc i) @ '' from role ''
                          @ r @ '' in account '' @ a @ '': '' @ e) \<and>
            tr' = tr @ map (detach_ok svc r) (take (Suc i) (p # ps))
                     @ [(IAM_DetachRolePolicy svc r (PolicyArn ((p # ps) ! Suc i)), Failed e)]"
        using i res tr' by simp
      then show ?thesis by blast
    qed
  qed
qed

lemma delete_inline_loop_run:
  assumes "delete_inline_loop env tr svc r a ps = (res, tr')"
  shows "(res = None \<and> tr' = tr @ map (delete_ok svc r) ps) \<or>
         (\<exists>i e. i < length ps \<and>
            res = Some (''error deleting inline policy '' @ ps ! i @ '' from role ''
                          @ r @ '' in account '' @ a @ '': '' @ e) \<and>
            tr' = tr @ map (delete_ok svc r) (take i ps)
                     @ [(IAM_DeleteRolePolicy svc r (ps ! i), Failed e)])"
  using assms
proof (induction ps arbitrary: tr)
  case Nil
  then show ?case by simp
next
  case (Cons p ps)
  show ?case
  proof (cases "iam_DeleteRolePolicy env tr svc r p")
    case (Some e)
    with Cons.prems have "res = Some (''error deleting inline policy '' @ p @ '' from role ''
                          @ r @ '' in account '' @ a @ '': '' @ e)"
      and "tr' = tr @ [(IAM_DeleteRolePolicy svc r p, Failed e)]"
      by simp_all
    then have "0 < length (p # ps) \<and>
            res = Some (''error deleting inline policy '' @ (p # ps) ! 0 @ '' from role ''
                          @ r @ '' in account '' @ a @ '': '' @ e) \<and>
            tr' = tr @ map (delete_ok svc r) (take 0 (p # ps))
                     @ [(IAM_DeleteRolePolicy svc r ((p # ps) ! 0), Failed e)]"
      by simp
    then show ?thesis by blast
  next
    case None
    with Cons.prems have run: "delete_inline_loop env (tr @ [delete_ok svc r p]) svc r a ps = (res, tr')"
      by (simp add: delete_ok_def)
    from Cons.IH [OF run] show ?thesis
    proof
      assume "res = None \<and> tr' = (tr @ [delete_ok svc r p]) @ map (delete_ok svc r) ps"
      then show ?thesis by simp
    next
      assume "\<exists>i e. i < length ps \<and>
            res = Some (''error deleting inline policy '' @ ps ! i @ '' from role ''
                          @ r @ '' in account '' @ a @ '': '' @ e) \<and>
            tr' = (tr @ [delete_ok svc r p]) @ map (delete_ok svc r) (take i ps)
                     @ [(IAM_DeleteRolePolicy svc r (ps ! i), Failed e)]"
      then obtain i e where i: "i < length ps"
        and res: "res = Some (''error deleting inline policy '' @ ps ! i @ '' from role ''
                          @ r @ '' in account '' @ a @ '': '' @ e)"
        and tr': "tr' = (tr @ [delete_ok svc r p]) @ map (delete_ok svc r) (take i ps)
                     @ [(IAM_DeleteRolePolicy svc r (ps ! i), Failed e)]"
        by blast
      have "Suc i < length (p # ps) \<and>
            res = Some (''error deleting inline policy '' @ (p # ps) ! Suc i @ '' from role ''
                          @ r @ '' in account '' @ a @ '': '' @ e) \<and>
            tr' = tr @ map (delete_ok svc r) (take (Suc i) (p # ps))
                     @ [(IAM_DeleteRolePolicy svc r ((p # ps) ! Suc i), Failed e)]"
        using i res tr' by simp
      then show ?thesis by blast
    qed
  qed
qed

lemma manageRole_cases [consumes 2, case_names list_failed detach_failed inline_list_failed
    inline_delete_failed role_delete_failed role_deleted detached]:
  assumes run: "manageRole env tr sess action acct role r = (res, tr')"
    and svc: "svc = assumed_client sess acct role"
  obtains
    e where "tr' = tr @ [(IAM_ListAttachedRolePolicies svc r, Failed e)]"
      and "res = ('''', Some (''error listing attached policies for role '' @ r
                   @ '' in account '' @ acct @ '': '' @ e))"
  | ps i e where "i < length ps"
      and "tr' = tr @ (IAM_ListAttachedRolePolicies svc r, Policies ps)
                 # map (detach_ok svc r) (take i ps)
                 @ [(IAM_DetachRolePolicy svc r (PolicyArn (ps ! i)), Failed e)]"
      and "res = ('''', Some (''error detaching policy '' @ PolicyArn (ps ! i) @ '' from role ''
                   @ r @ '' in account '' @ acct @ '': '' @ e))"
  | ps e where
      "tr' = tr @ (IAM_ListAttachedRolePolicies svc r, Policies ps) # map (detach_ok svc r) ps
                 @ [(IAM_ListRolePolicies svc r, Failed e)]"
      and "res = ('''', Some (''error listing inline policies for role '' @ r
                   @ '' in account '' @ acct @ '': '' @ e))"
  | ps ns j e where "j < length ns"
      and "tr' = tr @ (IAM_ListAttachedRolePolicies svc r, Policies ps) # map (detach_ok svc r) ps
                 @ (IAM_ListRolePolicies svc r, Names ns) # map (delete_ok svc r) (take j ns)
                 @ [(IAM_DeleteRolePolicy svc r (ns ! j), Failed e)]"
      and "res = ('''', Some (''error deleting inline policy '' @ ns ! j @ '' from role ''
                   @ r @ '' in account '' @ acct @ '': '' @ e))"
  | ps ns e where "action = DeleteRole"
      and "tr' = tr @ cleanup_events svc r ps ns @ [(IAM_DeleteRole svc r, Failed e)]"
      and "res = ('''', Some (''error deleting role '' @ r @ '' in account '' @ acct
                   @ '': '' @ e))"
  | ps ns where "action = DeleteRole"
      and "tr' = tr @ cleanup_events svc r ps ns @ [(IAM_DeleteRole svc r, Done)]"
      and "res = (''Role '' @ r @ '' and its policies are detached and deleted in account ''
                   @ acct, None)"
  | ps ns where "action \<noteq> DeleteRole"
      and "tr' = tr @ cleanup_events svc r ps ns"
      and "res = (''Policies detached from role '' @ r @ '' in account '' @ acct, None)"
proof (cases "iam_ListAttachedRolePolicies env tr svc r")
  case (Inl e)
  have "tr' = tr @ [(IAM_ListAttachedRolePolicies svc r, Failed e)]"
    and "res = ('''', Some (''error listing attached policies for role '' @ r
                   @ '' in account '' @ acct @ '': '' @ e))"
    using run Inl unfolding svc assumed_client_def manageRole_def Let_def by simp_all
  then show thesis by (rule that(1))
next
  case (Inr ps)
  note la = Inr
  let ?tr1 = "tr @ [(IAM_ListAttachedRolePolicies svc r, Policies ps)]"
  obtain r1 tr2 where dl: "detach_loop env ?tr1 svc r acct ps = (r1, tr2)"
    by fastforce
  show thesis
  proof (cases r1)
    case (Some msg)
    have res: "res = ('''', Some msg)" and tr': "tr' = tr2"
      using run la dl Some unfolding svc assumed_client_def manageRole_def Let_def by simp_all
    from detach_loop_run [OF dl] Some obtain i e where "i < length ps"
      and "msg = ''error detaching policy '' @ PolicyArn (ps ! i) @ '' from role ''
                   @ r @ '' in account '' @ acct @ '': '' @ e"
      and "tr2 = ?tr1 @ map (detach_ok svc r) (take i ps)
                     @ [(IAM_DetachRolePolicy svc r (PolicyArn (ps ! i)), Failed e)]"
      by auto
    with res tr' show thesis by (intro that(2) [where i=i and ps=ps and e=e]) simp_all
  next
    case None
    note r1 = None
    with detach_loop_run [OF dl] have tr2: "tr2 = ?tr1 @ map (detach_ok svc r) ps"
      by auto
    show thesis
    proof (cases "iam_ListRolePolicies env tr2 svc r")
      case (Inl e)
      have "tr' = tr2 @ [(IAM_ListRolePolicies svc r, Failed e)]"
        and "res = ('''', Some (''error listing inline policies for role '' @ r
                   @ '' in account '' @ acct @ '': '' @ e))"
        using run la dl r1 Inl unfolding svc assumed_client_def manageRole_def Let_def
        by simp_all
      then show thesis using tr2 by (intro that(3) [where ps=ps and e=e]) simp_all
    next
      case (Inr ns)
      note li = Inr
      let ?tr3 = "tr2 @ [(IAM_ListRolePolicies svc r, Names ns)]"
      obtain r3 tr4 where il: "delete_inline_loop env ?tr3 svc r acct ns = (r3, tr4)"
        by fastforce
      show thesis
      proof (cases r3)
        case (Some msg)
        have res: "res = ('''', Some msg)" and tr': "tr' = tr4"
          using run la dl r1 li il Some
          unfolding svc assumed_client_def manageRole_def Let_def by simp_all
        from delete_inline_loop_run [OF il] Some obtain j e where "j < length ns"
          and "msg = ''error deleting inline policy '' @ ns ! j @ '' from role ''
                   @ r @ '' in account '' @ acct @ '': '' @ e"
          and "tr4 = ?tr3 @ map (delete_ok svc r) (take j ns)
                     @ [(IAM_DeleteRolePolicy svc r (ns ! j), Failed e)]"
          by auto
        with res tr' tr2 show thesis
          by (intro that(4) [where j=j and ns=ns and ps=ps and e=e]) (simp_all add: cleanup_events_def)
      next
        case None
        note r3 = None
        with delete_inline_loop_run [OF il] have "tr4 = ?tr3 @ map (delete_ok svc r) ns"
          by auto
        with tr2 have tr4: "tr4 = tr @ cleanup_events svc r ps ns"
          by (simp add: cleanup_events_def)
        note facts = run la dl r1 li il r3
        show thesis
        proof (cases "action = DeleteRole")
          case False
          have "tr' = tr4"
            and "res = (''Policies detached from role '' @ r @ '' in account '' @ acct, None)"
            using facts False unfolding svc assumed_client_def manageRole_def Let_def
            by simp_all
          with tr4 False show thesis by (intro that(7) [where ps=ps and ns=ns]) simp_all
        next
          case True
          show thesis
          proof (cases "iam_DeleteRole env tr4 svc r")
            case (Some e)
            have "tr' = tr4 @ [(IAM_DeleteRole svc r, Failed e)]"
              and "res = ('''', Some (''error deleting role '' @ r @ '' in account '' @ acct
                   @ '': '' @ e))"
              using facts True Some unfolding svc assumed_client_def manageRole_def Let_def
              by simp_all
            with tr4 True show thesis by (intro that(5) [where ps=ps and ns=ns and e=e]) simp_all
          next
            case None
            have "tr' = tr4 @ [(IAM_DeleteRole svc r, Done)]"
              and "res = (''Role '' @ r @ '' and its policies are detached and deleted in account ''
                   @ acct, None)"
              using facts True None unfolding svc assumed_client_def manageRole_def Let_def
              by simp_all
            with tr4 True show thesis by (intro that(6) [where ps=ps and ns=ns]) simp_all
          qed
        qed
      qed
    qed
  qed
qed

section \<open>Facts about traces and messages\<close>

lemma issued_append [simp]: "issued tr (tr @ new) = new"
  by (simp add: issued_def)

lemma calls_Nil [simp]: "calls P [] = []"
  by (simp add: calls_def)

lemma calls_Cons [simp]: "calls P (ev # tr) = (if P (fst ev) then ev # calls P tr else calls P tr)"
  by (simp add: calls_def)

lemma calls_append [simp]: "calls P (tr @ tr') = calls P tr @ calls P tr'"
  by (simp add: calls_def)

lemma calls_detach_ok:
  "calls is_detach (map (detach_ok svc r) ps) = map (detach_ok svc r) ps"
  "calls is_inline_list (map (detach_ok svc r) ps) = []"
  "calls is_inline_delete (map (detach_ok svc r) ps) = []"
  "calls is_role_delete (map (detach_ok svc r) ps) = []"
  by (induction ps) (simp_all add: detach_ok_def)

lemma calls_delete_ok:
  "calls is_detach (map (delete_ok svc r) ns) = []"
  "calls is_inline_list (map (delete_ok svc r) ns) = []"
  "calls is_inline_delete (map (delete_ok svc r) ns) = map (delete_ok svc r) ns"
  "calls is_role_delete (map (delete_ok svc r) ns) = []"
  by (induction ns) (simp_all add: delete_ok_def)


lemma succeeded_delete_ok:
  "filter succeeded (map (delete_ok svc r) ns) = map (delete_ok svc r) ns"
  by (induction ns) (simp_all add: delete_ok_def succeeded_def)



lemma calls_cleanup_events:
  "calls is_detach (cleanup_events svc r ps ns) = map (detach_ok svc r) ps"
  "calls is_inline_delete (cleanup_events svc r ps ns) = map (delete_ok svc r) ns"
  "calls is_role_delete (cleanup_events svc r ps ns) = []"
  by (simp_all add: cleanup_events_def calls_detach_ok calls_delete_ok)

lemma sublist_split_at:
  assumes "c \<notin> set w"
  shows "sublist w (xs @ c # ys) \<longleftrightarrow> sublist w xs \<or> sublist w ys"
proof
  assume "sublist w (xs @ c # ys)"
  then consider "sublist w xs" | "sublist w (c # ys)"
    | w1 w2 where "w = w1 @ w2" "suffix w1 xs" "prefix w2 (c # ys)"
    by (auto simp: sublist_append)
  then show "sublist w xs \<or> sublist w ys"
  proof cases
    case 1
    then show ?thesis ..
  next
    case 2
    then have "prefix w (c # ys) \<or> sublist w ys"
      by (simp add: sublist_Cons_right)
    moreover have "w = []" if "prefix w (c # ys)"
      using that assms by (cases w) auto
    ultimately show ?thesis by auto
  next
    case 3
    from 3(3) assms 3(1) have "w2 = []"
      by (cases w2) auto
    with 3(1,2) show ?thesis by auto
  qed
next
  assume "sublist w xs \<or> sublist w ys"
  then show "sublist w (xs @ c # ys)"
    by (auto simp: sublist_append sublist_Cons_right)
qed

lemma detached_message_words:
  "''Policies detached from role '' @ r @ '' in account '' @ acct =
     ''Policies'' @ CHR '' '' # ''detached'' @ CHR '' '' # ''from'' @ CHR '' '' # ''role''
       @ CHR '' '' # r @ CHR '' '' # ''in'' @ CHR '' '' # ''account'' @ CHR '' '' # acct"
  by simp

lemma detached_message_silent:
  assumes "\<not> sublist ''delet'' r" and "\<not> sublist ''delet'' acct"
  shows "\<not> sublist ''delet'' (''Policies detached from role '' @ r @ '' in account '' @ acct)"
proof -
  have sp: "CHR '' '' \<notin> set ''delet''" by simp
  have words: "\<not> sublist ''delet'' ''Policies''" "\<not> sublist ''delet'' ''detached''"
    "\<not> sublist ''delet'' ''from''" "\<not> sublist ''delet'' ''role''"
    "\<not> sublist ''delet'' ''in''" "\<not> sublist ''delet'' ''account''"
    by (simp_all add: sublist_Cons_right)
  show ?thesis
    unfolding detached_message_words
    using assms words by (simp only: sublist_split_at [OF sp] simp_thms not_False_eq_True)
qed

lemma actions_distinct:
  "DetachPolicies \<noteq> DeleteRole" "ApplySCP \<noteq> DeleteRole" "ApplySCP \<noteq> DetachPolicies"
  by (simp_all add: DetachPolicies_def DeleteRole_def ApplySCP_def)

lemma detach_loop_all_ok:
  assumes "\<forall>i < length ps.
             iam_DetachRolePolicy env (tr @ map (detach_ok svc r) (take i ps)) svc r
               (PolicyArn (ps ! i)) = None"
  shows "detach_loop env tr svc r a ps = (None, tr @ map (detach_ok svc r) ps)"
  using assms
proof (induction ps arbitrary: tr)
  case Nil
  then show ?case by simp
next
  case (Cons p ps)
  from Cons.prems have first: "iam_DetachRolePolicy env tr svc r (PolicyArn p) = None"
    by fastforce
  have rest: "\<forall>i < length ps.
      iam_DetachRolePolicy env ((tr @ [detach_ok svc r p]) @ map (detach_ok svc r) (take i ps))
        svc r (PolicyArn (ps ! i)) = None"
  proof (intro allI impI)
    fix i
    assume "i < length ps"
    then have "Suc i < length (p # ps)" by simp
    with Cons.prems have "iam_DetachRolePolicy env
        (tr @ map (detach_ok svc r) (take (Suc i) (p # ps))) svc r
        (PolicyArn ((p # ps) ! Suc i)) = None"
      by blast
    then show "iam_DetachRolePolicy env
        ((tr @ [detach_ok svc r p]) @ map (detach_ok svc r) (take i ps)) svc r
        (PolicyArn (ps ! i)) = None"
      by simp
  qed
  from Cons.IH [OF rest] first show ?case
    by (simp add: detach_ok_def)
qed

lemma delete_inline_loop_all_ok:
  assumes "\<forall>j < length ns.
             iam_DeleteRolePolicy env (tr @ map (delete_ok svc r) (take j ns)) svc r (ns ! j)
               = None"
  shows "delete_inline_loop env tr svc r a ns = (None, tr @ map (delete_ok svc r) ns)"
  using assms
proof (induction ns arbitrary: tr)
  case Nil
  then show ?case by simp
next
  case (Cons n ns)
  from Cons.prems have first: "iam_DeleteRolePolicy env tr svc r n = None"
    by fastforce
  have rest: "\<forall>j < length ns.
      iam_DeleteRolePolicy env ((tr @ [delete_ok svc r n]) @ map (delete_ok svc r) (take j ns))
        svc r (ns ! j) = None"
  proof (intro allI impI)
    fix j
    assume "j < length ns"
    then have "Suc j < length (n # ns)" by simp
    with Cons.prems have "iam_DeleteRolePolicy env
        (tr @ map (delete_ok svc r) (take (Suc j) (n # ns))) svc r ((n # ns) ! Suc j) = None"
      by blast
    then show "iam_DeleteRolePolicy env
        ((tr @ [delete_ok svc r n]) @ map (delete_ok svc r) (take j ns)) svc r (ns ! j) = None"
      by simp
  qed
  from Cons.IH [OF rest] first show ?case
    by (simp add: delete_ok_def)
qed

lemma manageRole_cleanup_ok:
  assumes svc: "svc = assumed_client sess acct role"
    and la: "iam_ListAttachedRolePolicies env tr svc r = Inr ps"
    and det: "\<forall>i < length ps.
          iam_DetachRolePolicy env
            (tr @ (IAM_ListAttachedRolePolicies svc r, Policies ps)
                  # map (detach_ok svc r) (take i ps))
            svc r (PolicyArn (ps ! i)) = None"
    and li: "iam_ListRolePolicies env
          (tr @ (IAM_ListAttachedRolePolicies svc r, Policies ps) # map (detach_ok svc r) ps)
          svc r = Inr ns"
    and del: "\<forall>j < length ns.
          iam_DeleteRolePolicy env
            (tr @ (IAM_ListAttachedRolePolicies svc r, Policies ps) # map (detach_ok svc r) ps
                @ (IAM_ListRolePolicies svc r, Names ns) # map (delete_ok svc r) (take j ns))
            svc r (ns ! j) = None"
  shows "manageRole env tr sess action acct role r =
          (if action = DeleteRole then
             (case iam_DeleteRole env (tr @ cleanup_events svc r ps ns) svc r of
                Some err \<Rightarrow>
                  (('''', Some (''error deleting role '' @ r @ '' in account '' @ acct
                                 @ '': '' @ err)),
                   tr @ cleanup_events svc r ps ns @ [(IAM_DeleteRole svc r, Failed err)])
              | None \<Rightarrow>
                  ((''Role '' @ r @ '' and its policies are detached and deleted in account ''
                      @ acct, None),
                   tr @ cleanup_events svc r ps ns @ [(IAM_DeleteRole svc r, Done)]))
           else ((''Policies detached from role '' @ r @ '' in account '' @ acct, None),
                 tr @ cleanup_events svc r ps ns))"
proof -
  let ?tr1 = "tr @ [(IAM_ListAttachedRolePolicies svc r, Policies ps)]"
  from det have "\<forall>i < length ps.
      iam_DetachRolePolicy env (?tr1 @ map (detach_ok svc r) (take i ps)) svc r
        (PolicyArn (ps ! i)) = None"
    by simp
  then have dl: "detach_loop env ?tr1 svc r acct ps = (None, ?tr1 @ map (detach_ok svc r) ps)"
    by (rule detach_loop_all_ok)
  let ?tr2 = "?tr1 @ map (detach_ok svc r) ps"
  let ?tr3 = "?tr2 @ [(IAM_ListRolePolicies svc r, Names ns)]"
  from li have li': "iam_ListRolePolicies env ?tr2 svc r = Inr ns"
    by simp
  from del have "\<forall>j < length ns.
      iam_DeleteRolePolicy env (?tr3 @ map (delete_ok svc r) (take j ns)) svc r (ns ! j) = None"
    by simp
  then have il: "delete_inline_loop env ?tr3 svc r acct ns
      = (None, ?tr3 @ map (delete_ok svc r) ns)"
    by (rule delete_inline_loop_all_ok)
  have tr4: "?tr3 @ map (delete_ok svc r) ns = tr @ cleanup_events svc r ps ns"
    by (simp add: cleanup_events_def)
  show ?thesis
    using la dl li' il unfolding svc assumed_client_def manageRole_def Let_def
    by (simp add: tr4 [unfolded svc assumed_client_def] cleanup_events_def
          split: option.splits)
qed

lemma role_delete_last:
  assumes run: "manageRole env tr sess action acct role r = (res, tr')"
    and svc: "svc = assumed_client sess acct role"
    and called: "(c, resp) \<in> set (issued tr tr')" "is_role_delete c"
  shows "action = DeleteRole \<and> c = IAM_DeleteRole svc r
       \<and> (\<exists>ps ns. issued tr tr' = cleanup_events svc r ps ns @ [(c, resp)])"
  using run svc
proof (cases rule: manageRole_cases)
  case (role_delete_failed ps ns e)
  with called show ?thesis
    by (auto simp: cleanup_events_def detach_ok_def delete_ok_def)
next
  case (role_deleted ps ns)
  with called show ?thesis
    by (auto simp: cleanup_events_def detach_ok_def delete_ok_def)
qed (use called in \<open>auto simp: cleanup_events_def detach_ok_def delete_ok_def dest: in_set_takeD\<close>)

section \<open>The shape of a run of loadConfig, applySCP and HandleRequest\<close>

lemma loadConfig_cases [consumes 1, case_names unreadable malformed loaded]:
  assumes "loadConfig env tr filename = (r, tr')"
  obtains
    e where "r = Inl e" and "tr' = tr @ [(OS_ReadFile filename, Failed e)]"
      and "os_ReadFile env tr filename = Inl e"
  | b e where "r = Inl e" and "tr' = tr @ [(OS_ReadFile filename, Bytes b)]"
      and "os_ReadFile env tr filename = Inr b" and "json_Unmarshal env b = Inl e"
  | b config where "r = Inr config" and "tr' = tr @ [(OS_ReadFile filename, Bytes b)]"
      and "os_ReadFile env tr filename = Inr b" and "json_Unmarshal env b = Inr config"
proof (cases "os_ReadFile env tr filename")
  case (Inl e)
  with assms have "r = Inl e" and "tr' = tr @ [(OS_ReadFile filename, Failed e)]"
    by (simp_all add: loadConfig_def)
  with Inl show thesis by (intro that(1) [where e = e]) simp_all
next
  case (Inr b)
  note read = Inr
  show thesis
  proof (cases "json_Unmarshal env b")
    case (Inl e)
    with assms read have "r = Inl e" and "tr' = tr @ [(OS_ReadFile filename, Bytes b)]"
      by (simp_all add: loadConfig_def)
    with read Inl show thesis by (intro that(2) [where e = e and b = b]) simp_all
  next
    case (Inr config)
    with assms read
    have "r = Inr config" and "tr' = tr @ [(OS_ReadFile filename, Bytes b)]"
      by (simp_all add: loadConfig_def)
    with Inr read show thesis
      by (intro that(3) [where config = config and b = b]) simp_all
  qed
qed

lemma request_region:
  "(if Region request = '''' then request\<lparr>Region := DefaultRegion\<rparr> else request)
     = request\<lparr>Region := effective_region request\<rparr>"
  by (simp add: effective_region_def)

lemma applySCP_cases [consumes 2, case_names create_failed attach_failed applied]:
  assumes run: "applySCP env tr sess mgmt target role config = (res, tr')"
    and svc: "svc = assumed_client sess mgmt role"
  obtains
    e where "tr' = tr @ [(scp_create_call svc config, Failed e)]"
      and "res = ('''', Some (''error creating SCP: '' @ e))"
  | pid e where
      "tr' = tr @ [(scp_create_call svc config, Created pid),
                   (Org_AttachPolicy svc pid target, Failed e)]"
      and "res = ('''', Some (''error attaching SCP to account '' @ target @ '': '' @ e))"
  | pid where
      "tr' = tr @ [(scp_create_call svc config, Created pid),
                   (Org_AttachPolicy svc pid target, Done)]"
      and "res = (''SCP applied to account '' @ target @ '' with policy ID '' @ pid, None)"
  using assms
  by (auto simp: applySCP_def assumed_client_def scp_create_call_def Let_def
      split: sum.splits option.splits)

lemma HandleRequest_cases [consumes 3, case_names rejected panicked no_management no_config
    apply_scp no_role_name manage_role invalid_action]:
  assumes run: "HandleRequest env request = (out, tr)"
    and sess: "sess = \<lparr>sess_region = effective_region request\<rparr>"
    and tr0: "tr0 = [(Session_NewSession (effective_region request), Done)]"
  obtains
    "TargetAccountID request = '''' \<or> RoleToAssume request = ''''"
      and "out = Returned '''' (Some ''targetAccountID and roleToAssume are required'')"
      and "tr = []"
  | e where "TargetAccountID request \<noteq> ''''" and "RoleToAssume request \<noteq> ''''"
      and "session_NewSession env [] (effective_region request) = Some e"
      and "out = Panicked e"
      and "tr = [(Session_NewSession (effective_region request), Failed e)]"
  | "TargetAccountID request \<noteq> ''''" and "RoleToAssume request \<noteq> ''''"
      and "session_NewSession env [] (effective_region request) = None"
      and "Action request = ApplySCP" and "OrgManagementAccountID request = ''''"
      and "out = Returned '''' (Some ''managementAccount is required for apply_scp action'')"
      and "tr = tr0"
  | e where "TargetAccountID request \<noteq> ''''" and "RoleToAssume request \<noteq> ''''"
      and "session_NewSession env [] (effective_region request) = None"
      and "Action request = ApplySCP" and "OrgManagementAccountID request \<noteq> ''''"
      and "loadConfig env tr0 ''switch.conf'' = (Inl e, tr)"
      and "out = Returned '''' (Some (''error loading config file: '' @ e))"
  | config trc s e where "TargetAccountID request \<noteq> ''''" and "RoleToAssume request \<noteq> ''''"
      and "session_NewSession env [] (effective_region request) = None"
      and "Action request = ApplySCP" and "OrgManagementAccountID request \<noteq> ''''"
      and "loadConfig env tr0 ''switch.conf'' = (Inr config, trc)"
      and "applySCP env trc sess (OrgManagementAccountID request) (TargetAccountID request)
             (RoleToAssume request) config = ((s, e), tr)"
      and "out = Returned s e"
  | "TargetAccountID request \<noteq> ''''" and "RoleToAssume request \<noteq> ''''"
      and "session_NewSession env [] (effective_region request) = None"
      and "Action request = DetachPolicies \<or> Action request = DeleteRole"
      and "TargetRoleName request = ''''"
      and "out = Returned ''''
             (Some ''targetRoleName is required for delete_role and detach_policies actions'')"
      and "tr = tr0"
  | s e where "TargetAccountID request \<noteq> ''''" and "RoleToAssume request \<noteq> ''''"
      and "session_NewSession env [] (effective_region request) = None"
      and "Action request = DetachPolicies \<or> Action request = DeleteRole"
      and "TargetRoleName request \<noteq> ''''"
      and "manageRole env tr0 sess (Action request) (TargetAccountID request)
             (RoleToAssume request) (TargetRoleName request) = ((s, e), tr)"
      and "out = Returned s e"
  | "TargetAccountID request \<noteq> ''''" and "RoleToAssume request \<noteq> ''''"
      and "session_NewSession env [] (effective_region request) = None"
      and "Action request \<noteq> ApplySCP" and "Action request \<noteq> DetachPolicies"
      and "Action request \<noteq> DeleteRole"
      and "out = Returned '''' (Some ''invalid action'')"
      and "tr = tr0"
proof (cases "TargetAccountID request = '''' \<or> RoleToAssume request = ''''")
  case True
  with run have "out = Returned '''' (Some ''targetAccountID and roleToAssume are required'')"
    and "tr = []"
    by (auto simp: HandleRequest_def)
  with True show thesis by (rule that(1))
next
  case False
  then have fields: "TargetAccountID request \<noteq> ''''" "RoleToAssume request \<noteq> ''''"
    by simp_all
  let ?region = "effective_region request"
  show thesis
  proof (cases "session_NewSession env [] ?region")
    case (Some e)
    with run fields have "out = Panicked e" and "tr = [(Session_NewSession ?region, Failed e)]"
      by (auto simp: HandleRequest_def request_region Let_def)
    with fields Some show thesis by (rule that(2))
  next
    case None
    note up = fields None
    show thesis
    proof (cases "Action request = ApplySCP")
      case True
      note is_apply = True
      show thesis
      proof (cases "OrgManagementAccountID request = ''''")
        case True
        with run up is_apply
        have "out = Returned '''' (Some ''managementAccount is required for apply_scp action'')"
          and "tr = tr0"
          by (auto simp: HandleRequest_def request_region Let_def tr0)
        with up is_apply True show thesis by (rule that(3))
      next
        case False
        obtain r tr1 where lc: "loadConfig env tr0 ''switch.conf'' = (r, tr1)"
          by fastforce
        show thesis
        proof (cases r)
          case (Inl e)
          with run up is_apply False lc
          have "out = Returned '''' (Some (''error loading config file: '' @ e))" and "tr = tr1"
            by (auto simp: HandleRequest_def request_region Let_def tr0)
          with up is_apply False lc Inl show thesis by (intro that(4) [where e = e]) simp_all
        next
          case (Inr config)
          obtain s e tr2 where ap: "applySCP env tr1 sess (OrgManagementAccountID request)
              (TargetAccountID request) (RoleToAssume request) config = ((s, e), tr2)"
            by (metis surj_pair)
          with run up is_apply False lc Inr
          have "out = Returned s e" and "tr = tr2"
            by (auto simp: HandleRequest_def request_region Let_def tr0 sess)
          with up is_apply False lc Inr ap show thesis
            by (intro that(5) [where config = config and trc = tr1 and s = s and e = e])
              simp_all
        qed
      qed
    next
      case False
      note not_apply = False
      show thesis
      proof (cases "Action request = DetachPolicies \<or> Action request = DeleteRole")
        case True
        note role_action = True
        show thesis
        proof (cases "TargetRoleName request = ''''")
          case True
          with run up not_apply role_action
          have "out = Returned ''''
             (Some ''targetRoleName is required for delete_role and detach_policies actions'')"
            and "tr = tr0"
            by (auto simp: HandleRequest_def request_region Let_def tr0)
          with up role_action True show thesis by (rule that(6))
        next
          case False
          obtain s e tr2 where mr: "manageRole env tr0 sess (Action request)
              (TargetAccountID request) (RoleToAssume request) (TargetRoleName request)
              = ((s, e), tr2)"
            by (metis surj_pair)
          with run up not_apply role_action False
          have "out = Returned s e" and "tr = tr2"
            by (auto simp: HandleRequest_def request_region Let_def tr0 sess)
          with up role_action False mr show thesis
            by (intro that(7) [where s = s and e = e]) simp_all
        qed
      next
        case False
        with run up not_apply
        have "out = Returned '''' (Some ''invalid action'')" and "tr = tr0"
          by (auto simp: HandleRequest_def request_region Let_def tr0)
        with up not_apply False show thesis by (intro that(8)) simp_all
      qed
    qed
  qed
qed

lemma manageRole_extends:
  assumes run: "manageRole env tr sess action acct role r = (res, tr')"
    and svc: "svc = assumed_client sess acct role"
  shows "\<exists>new. tr' = tr @ new \<and> new \<noteq> [] \<and> (\<forall>ev \<in> set new. call_client (fst ev) = Some svc)"
  using run svc
  by (cases rule: manageRole_cases)
    (auto simp: cleanup_events_def detach_ok_def delete_ok_def dest: in_set_takeD)

lemma manageRole_xor:
  assumes "manageRole env tr sess action acct role r = ((s, e), tr')"
  shows "(e \<noteq> None \<longrightarrow> s = '''') \<and> (e = None \<longrightarrow> s \<noteq> '''')"
  using assms refl [of "assumed_client sess acct role"]
  by (cases rule: manageRole_cases) auto

lemma applySCP_extends:
  assumes run: "applySCP env tr sess mgmt target role config = (res, tr')"
    and svc: "svc = assumed_client sess mgmt role"
  shows "\<exists>new. tr' = tr @ new \<and> new \<noteq> [] \<and> (\<forall>ev \<in> set new. call_client (fst ev) = Some svc)"
  using run svc
  by (cases rule: applySCP_cases) (auto simp: scp_create_call_def)

lemma applySCP_xor:
  assumes "applySCP env tr sess mgmt target role config = ((s, e), tr')"
  shows "(e \<noteq> None \<longrightarrow> s = '''') \<and> (e = None \<longrightarrow> s \<noteq> '''')"
  using assms refl [of "assumed_client sess mgmt role"]
  by (cases rule: applySCP_cases) auto

lemma clients_of_run:
  assumes "tr = pre @ new"
    and "\<forall>ev \<in> set new. call_client (fst ev) = Some svc"
    and "\<forall>ev \<in> set pre. call_client (fst ev) = None"
    and "f svc = v"
  shows "\<forall>ev \<in> set tr. \<forall>c. call_client (fst ev) = Some c \<longrightarrow> f c = v"
  using assms by auto

lemma HandleRequest_region_clients:
  assumes run: "HandleRequest env request = (out, tr)"
  shows "\<forall>ev \<in> set tr. \<forall>c. call_client (fst ev) = Some c \<longrightarrow>
           client_region c = effective_region request"
  using run refl refl
proof (cases rule: HandleRequest_cases)
  case (no_config e)
  from no_config(6) show ?thesis
    by (cases rule: loadConfig_cases) (use no_config in auto)
next
  case (apply_scp config trc s e)
  from apply_scp(6) obtain resp where
    trc: "trc = [(Session_NewSession (effective_region request), Done),
            (OS_ReadFile ''switch.conf'', resp)]"
    by (cases rule: loadConfig_cases) auto
  from applySCP_extends [OF apply_scp(7) refl] obtain new where
    "tr = trc @ new"
    "\<forall>ev \<in> set new. call_client (fst ev) =
       Some (assumed_client \<lparr>sess_region = effective_region request\<rparr>
               (OrgManagementAccountID request) (RoleToAssume request))"
    by blast
  then show ?thesis
    by (rule clients_of_run) (simp_all add: trc assumed_client_def)
next
  case (manage_role s e)
  from manageRole_extends [OF manage_role(6) refl] obtain new where
    "tr = [(Session_NewSession (effective_region request), Done)] @ new"
    "\<forall>ev \<in> set new. call_client (fst ev) =
       Some (assumed_client \<lparr>sess_region = effective_region request\<rparr>
               (TargetAccountID request) (RoleToAssume request))"
    by blast
  then show ?thesis
    by (rule clients_of_run) (simp_all add: assumed_client_def)
qed auto

lemma HandleRequest_session_first:
  assumes run: "HandleRequest env request = (out, tr)"
    and fields: "TargetAccountID request \<noteq> ''''" "RoleToAssume request \<noteq> ''''"
  shows "tr \<noteq> [] \<and> fst (hd tr) = Session_NewSession (effective_region request)
       \<and> calls is_cloud_call [hd tr] = []"
  using run refl refl
proof (cases rule: HandleRequest_cases)
  case rejected
  with fields show ?thesis by simp
next
  case (no_config e)
  from no_config(6) show ?thesis
    by (cases rule: loadConfig_cases) (use no_config in auto)
next
  case (apply_scp config trc s e)
  from apply_scp(6) obtain resp where
    trc: "trc = [(Session_NewSession (effective_region request), Done),
            (OS_ReadFile ''switch.conf'', resp)]"
    by (cases rule: loadConfig_cases) auto
  with applySCP_extends [OF apply_scp(7) refl] show ?thesis by auto
next
  case (manage_role s e)
  with manageRole_extends [OF manage_role(6) refl] show ?thesis by auto
qed auto

section \<open>The dispatcher's validation\<close>

text \<open>
  Claim C1. Whenever \<open>target_account_id\<close> or \<open>role_to_assume\<close> is empty, whatever the
  action and the other fields are and whatever the environment would answer,
  \<open>HandleRequest\<close> returns the empty string with the error
  \<open>targetAccountID and roleToAssume are required\<close> (the code's validation error), and
  the trace of the run is empty: no session is built, no file is read, no credentials
  are assumed and no Organizations or IAM operation is called.
\<close>

theorem C1_required_fields:
  assumes "TargetAccountID request = '''' \<or> RoleToAssume request = ''''"
  shows "HandleRequest env request =
           (Returned '''' (Some ''targetAccountID and roleToAssume are required''), [])"
  using assms by (auto simp: HandleRequest_def)

theorem C1_required_fields_witness:
  "(TargetAccountID (demo_request\<lparr>Action := ''apply_scp'', RoleToAssume := ''''\<rparr>) = ''''
      \<or> RoleToAssume (demo_request\<lparr>Action := ''apply_scp'', RoleToAssume := ''''\<rparr>) = '''')
   \<and> HandleRequest healthy_env (demo_request\<lparr>Action := ''apply_scp'', RoleToAssume := ''''\<rparr>) =
         (Returned '''' (Some ''targetAccountID and roleToAssume are required''), [])"
  using C1_required_fields [of "demo_request\<lparr>Action := ''apply_scp'', RoleToAssume := ''''\<rparr>"
      healthy_env]
  by simp

text \<open>
  Claim C4, as amended. Take a request with action \<open>apply_scp\<close> whose
  \<open>target_account_id\<close> and \<open>role_to_assume\<close> are non-empty and for which the SDK session
  is built (\<^verbatim>\<open>session.NewSession\<close> returns no error). If
  \<open>org_management_account\<close> is empty, \<open>HandleRequest\<close> returns the error
  \<open>managementAccount is required for apply_scp action\<close>, the configuration file is not
  read and no cloud call is made. If it is non-empty and reading \<open>switch.conf\<close> fails
  with \<open>e\<close>, or the bytes read do not parse (\<^verbatim>\<open>json.Unmarshal\<close> fails with \<open>e\<close>),
  \<open>HandleRequest\<close> returns the error \<open>error loading config file: e\<close>; the trace of the
  run is the session and the read, so \<open>applySCP\<close> is not entered and no cloud call is
  made.

  The claim as stated leaves out the two provisos. The required-field check comes first,
  so a request with an empty \<open>target_account_id\<close> gets that validation error and the
  configuration is never looked at, readable or not; and the session is built before the
  action is dispatched, so when \<^verbatim>\<open>session.NewSession\<close> fails, \<^verbatim>\<open>session.Must\<close> panics
  and nothing is returned.
\<close>

theorem C4_apply_scp_validation:
  assumes run: "HandleRequest env request = (out, tr)"
    and action: "Action request = ApplySCP"
    and fields: "TargetAccountID request \<noteq> '''' \<and> RoleToAssume request \<noteq> ''''"
    and session: "session_NewSession env []
                    (if Region request = '''' then DefaultRegion else Region request) = None"
    and tr0: "tr0 = [(Session_NewSession
                        (if Region request = '''' then DefaultRegion else Region request), Done)]"
  shows "(OrgManagementAccountID request = '''' \<longrightarrow>
            out = Returned '''' (Some ''managementAccount is required for apply_scp action'')
            \<and> calls is_read_config tr = [] \<and> calls is_cloud_call tr = [])
       \<and> (OrgManagementAccountID request \<noteq> '''' \<longrightarrow>
            (\<forall>e. os_ReadFile env tr0 ''switch.conf'' = Inl e \<longrightarrow>
                 out = Returned '''' (Some (''error loading config file: '' @ e))
                 \<and> tr = tr0 @ [(OS_ReadFile ''switch.conf'', Failed e)]
                 \<and> calls is_cloud_call tr = [])
            \<and> (\<forall>b e. os_ReadFile env tr0 ''switch.conf'' = Inr b \<and> json_Unmarshal env b = Inl e \<longrightarrow>
                 out = Returned '''' (Some (''error loading config file: '' @ e))
                 \<and> tr = tr0 @ [(OS_ReadFile ''switch.conf'', Bytes b)]
                 \<and> calls is_cloud_call tr = []))"
  using run refl refl
proof (cases rule: HandleRequest_cases)
  case (no_config e)
  from no_config(6) show ?thesis
    by (cases rule: loadConfig_cases)
      (use no_config tr0 in \<open>auto simp: effective_region_def\<close>)
next
  case (apply_scp config trc s e)
  from apply_scp(6) show ?thesis
    by (cases rule: loadConfig_cases)
      (use apply_scp tr0 in \<open>auto simp: effective_region_def\<close>)
qed (use action fields session tr0 actions_distinct in \<open>auto simp: effective_region_def\<close>)

theorem C4_apply_scp_validation_witness:
  "fst (HandleRequest no_config_env (demo_request\<lparr>Action := ''apply_scp''\<rparr>))
     = Returned '''' (Some ''error loading config file: no such file'')
   \<and> calls is_cloud_call
        (snd (HandleRequest no_config_env (demo_request\<lparr>Action := ''apply_scp''\<rparr>))) = []
   \<and> fst (HandleRequest bad_config_env (demo_request\<lparr>Action := ''apply_scp''\<rparr>))
     = Returned '''' (Some ''error loading config file: unexpected end'')
   \<and> fst (HandleRequest healthy_env
             (demo_request\<lparr>Action := ''apply_scp'', OrgManagementAccountID := ''''\<rparr>))
     = Returned '''' (Some ''managementAccount is required for apply_scp action'')
   \<and> calls is_read_config (snd (HandleRequest healthy_env
             (demo_request\<lparr>Action := ''apply_scp'', OrgManagementAccountID := ''''\<rparr>))) = []"
  using C4_apply_scp_validation [OF surjective_pairing _ _ _ refl, where env = no_config_env
      and request = "demo_request\<lparr>Action := ''apply_scp''\<rparr>"]
    C4_apply_scp_validation [OF surjective_pairing _ _ _ refl, where env = bad_config_env
      and request = "demo_request\<lparr>Action := ''apply_scp''\<rparr>"]
    C4_apply_scp_validation [OF surjective_pairing _ _ _ refl, where env = healthy_env
      and request = "demo_request\<lparr>Action := ''apply_scp'', OrgManagementAccountID := ''''\<rparr>"]
  by (simp add: demo_request_def healthy_env_def no_config_env_def bad_config_env_def
        ApplySCP_def)

theorem C4_counterexample:
  "Action (demo_request\<lparr>Action := ''apply_scp'', TargetAccountID := ''''\<rparr>) = ApplySCP
   \<and> OrgManagementAccountID (demo_request\<lparr>Action := ''apply_scp'', TargetAccountID := ''''\<rparr>)
       \<noteq> ''''
   \<and> os_ReadFile no_config_env [] ''switch.conf'' = Inl ''no such file''
   \<and> HandleRequest no_config_env (demo_request\<lparr>Action := ''apply_scp'', TargetAccountID := ''''\<rparr>)
       = (Returned '''' (Some ''targetAccountID and roleToAssume are required''), [])
   \<and> fst (HandleRequest no_config_env
             (demo_request\<lparr>Action := ''apply_scp'', TargetAccountID := ''''\<rparr>))
       \<noteq> Returned '''' (Some ''error loading config file: no such file'')
   \<and> Action (demo_request\<lparr>Action := ''apply_scp'', OrgManagementAccountID := ''''\<rparr>) = ApplySCP
   \<and> HandleRequest no_session_env
         (demo_request\<lparr>Action := ''apply_scp'', OrgManagementAccountID := ''''\<rparr>)
       = (Panicked ''bad CA bundle'',
          [(Session_NewSession ''us-east-1'', Failed ''bad CA bundle'')])"
  by (simp add: HandleRequest_def demo_request_def healthy_env_def no_session_env_def
        no_config_env_def ApplySCP_def DefaultRegion_def)

text \<open>
  Claim C7. The default region is the constant \<open>us-east-1\<close>. A request without a region
  is handled exactly as the same request with the region \<open>us-east-1\<close> written out: same
  outcome, same calls; so no failure of such a request is due to the missing region.
  For every request that passes the required-field check, the first thing the handler
  does is build the session, for the region \<open>us-east-1\<close> when the request has none and for
  the request's own region otherwise; and every cloud call of the run is made by a client
  of that region.
\<close>

theorem C7_default_region:
  "DefaultRegion = ''us-east-1''
   \<and> HandleRequest env (request\<lparr>Region := ''''\<rparr>)
       = HandleRequest env (request\<lparr>Region := DefaultRegion\<rparr>)
   \<and> (TargetAccountID request \<noteq> '''' \<and> RoleToAssume request \<noteq> '''' \<longrightarrow>
        snd (HandleRequest env request) \<noteq> []
        \<and> fst (hd (snd (HandleRequest env request)))
            = Session_NewSession (if Region request = '''' then ''us-east-1''
                                  else Region request))
   \<and> (\<forall>ev \<in> set (snd (HandleRequest env request)). \<forall>c.
         call_client (fst ev) = Some c \<longrightarrow>
         client_region c = (if Region request = '''' then ''us-east-1'' else Region request))"
proof -
  obtain out tr where run: "HandleRequest env request = (out, tr)"
    by fastforce
  have "HandleRequest env (request\<lparr>Region := ''''\<rparr>)
       = HandleRequest env (request\<lparr>Region := DefaultRegion\<rparr>)"
    by (simp add: HandleRequest_def DefaultRegion_def)
  with HandleRequest_region_clients [OF run] HandleRequest_session_first [OF run] run
  show ?thesis
    by (simp add: effective_region_def DefaultRegion_def)
qed

theorem C7_default_region_witness:
  "(TargetAccountID demo_request \<noteq> '''' \<and> RoleToAssume demo_request \<noteq> '''')
   \<and> Region demo_request = ''''
   \<and> snd (HandleRequest healthy_env demo_request) \<noteq> []
   \<and> fst (hd (snd (HandleRequest healthy_env demo_request))) = Session_NewSession ''us-east-1''"
proof -
  have fields: "TargetAccountID demo_request \<noteq> '''' \<and> RoleToAssume demo_request \<noteq> ''''"
    and region: "Region demo_request = ''''"
    by (simp_all add: demo_request_def)
  from C7_default_region [where env = healthy_env and request = demo_request] fields region
  show ?thesis by simp
qed

text \<open>
  Claim C9, as amended. Take a request whose \<open>target_account_id\<close> and \<open>role_to_assume\<close>
  are non-empty and whose action is none of \<open>apply_scp\<close>, \<open>detach_policies\<close>,
  \<open>delete_role\<close>. The run makes no cloud call and does not read the configuration. If
  the SDK session is built, \<open>HandleRequest\<close> returns the error \<open>invalid action\<close>; if
  \<^verbatim>\<open>session.NewSession\<close> fails, \<^verbatim>\<open>session.Must\<close> panics with that error, since the
  session is built before the action is looked at.

  The claim as stated promises the \<open>invalid action\<close> error in every case; the
  counterexample is a run in which the session cannot be built.
\<close>

theorem C9_invalid_action:
  assumes run: "HandleRequest env request = (out, tr)"
    and fields: "TargetAccountID request \<noteq> '''' \<and> RoleToAssume request \<noteq> ''''"
    and action: "Action request \<noteq> ApplySCP \<and> Action request \<noteq> DetachPolicies
                 \<and> Action request \<noteq> DeleteRole"
  shows "calls is_cloud_call tr = [] \<and> calls is_read_config tr = []
       \<and> (session_NewSession env []
             (if Region request = '''' then DefaultRegion else Region request) = None
           \<longrightarrow> out = Returned '''' (Some ''invalid action''))
       \<and> (\<forall>err. session_NewSession env []
             (if Region request = '''' then DefaultRegion else Region request) = Some err
           \<longrightarrow> out = Panicked err)"
  using run refl refl
  by (cases rule: HandleRequest_cases) (use fields action in \<open>auto simp: effective_region_def\<close>)

theorem C9_invalid_action_witness:
  "calls is_cloud_call (snd (HandleRequest healthy_env (demo_request\<lparr>Action := ''reboot''\<rparr>))) = []
   \<and> fst (HandleRequest healthy_env (demo_request\<lparr>Action := ''reboot''\<rparr>))
       = Returned '''' (Some ''invalid action'')
   \<and> fst (HandleRequest no_session_env (demo_request\<lparr>Action := ''reboot''\<rparr>))
       = Panicked ''bad CA bundle''"
  using C9_invalid_action [OF surjective_pairing, where env = healthy_env
      and request = "demo_request\<lparr>Action := ''reboot''\<rparr>"]
    C9_invalid_action [OF surjective_pairing, where env = no_session_env
      and request = "demo_request\<lparr>Action := ''reboot''\<rparr>"]
  by (simp add: demo_request_def healthy_env_def no_session_env_def ApplySCP_def
        DetachPolicies_def DeleteRole_def)

theorem C9_counterexample:
  "TargetAccountID (demo_request\<lparr>Action := ''reboot''\<rparr>) \<noteq> ''''
   \<and> RoleToAssume (demo_request\<lparr>Action := ''reboot''\<rparr>) \<noteq> ''''
   \<and> Action (demo_request\<lparr>Action := ''reboot''\<rparr>) \<noteq> ApplySCP
   \<and> Action (demo_request\<lparr>Action := ''reboot''\<rparr>) \<noteq> DetachPolicies
   \<and> Action (demo_request\<lparr>Action := ''reboot''\<rparr>) \<noteq> DeleteRole
   \<and> HandleRequest no_session_env (demo_request\<lparr>Action := ''reboot''\<rparr>)
       = (Panicked ''bad CA bundle'',
          [(Session_NewSession ''us-east-1'', Failed ''bad CA bundle'')])
   \<and> fst (HandleRequest no_session_env (demo_request\<lparr>Action := ''reboot''\<rparr>))
       \<noteq> Returned '''' (Some ''invalid action'')"
  by (simp add: HandleRequest_def demo_request_def healthy_env_def no_session_env_def
        ApplySCP_def DetachPolicies_def DeleteRole_def DefaultRegion_def)

text \<open>
  Claim C10, as amended. Whatever the request and whatever the environment answers,
  whenever \<open>HandleRequest\<close> returns its pair \<^verbatim>\<open>(string, error)\<close>, exactly one of the two
  carries something: with a non-nil error the string is empty, with a nil error the
  string is non-empty. It returns when a required field is missing, and when the session
  is built and the run ends before any cloud call. It does not return in every run: when
  the required fields are present and \<^verbatim>\<open>session.NewSession\<close> fails, \<^verbatim>\<open>session.Must\<close>
  panics with that error.

  The claim as stated has the handler return one of the two in every run; the
  counterexample is a run in which the session cannot be built and nothing is returned.
\<close>

theorem C10_message_xor_error:
  "(\<forall>s e tr. HandleRequest env request = (Returned s e, tr)
       \<longrightarrow> (e \<noteq> None \<longrightarrow> s = '''') \<and> (e = None \<longrightarrow> s \<noteq> ''''))
   \<and> (TargetAccountID request = '''' \<or> RoleToAssume request = ''''
        \<longrightarrow> returned (fst (HandleRequest env request)))
   \<and> (session_NewSession env []
          (if Region request = '''' then DefaultRegion else Region request) = None
        \<and> calls is_cloud_call (snd (HandleRequest env request)) = []
        \<longrightarrow> returned (fst (HandleRequest env request)))
   \<and> (\<forall>err. TargetAccountID request \<noteq> '''' \<and> RoleToAssume request \<noteq> ''''
        \<and> session_NewSession env []
             (if Region request = '''' then DefaultRegion else Region request) = Some err
        \<longrightarrow> fst (HandleRequest env request) = Panicked err)"
proof -
  obtain out tr where run: "HandleRequest env request = (out, tr)"
    by fastforce
  from run refl refl show ?thesis
  proof (cases rule: HandleRequest_cases)
    case (apply_scp config trc s e)
    with run applySCP_xor [OF apply_scp(7)] show ?thesis
      by (auto simp: effective_region_def)
  next
    case (manage_role s e)
    with run manageRole_xor [OF manage_role(6)] show ?thesis
      by (auto simp: effective_region_def)
  qed (use run in \<open>auto simp: effective_region_def\<close>)
qed

theorem C10_message_xor_error_witness:
  "fst (HandleRequest healthy_env demo_request)
     = Returned ''Policies detached from role victim in account 111'' None
   \<and> ''Policies detached from role victim in account 111'' \<noteq> ''''
   \<and> fst (HandleRequest no_config_env (demo_request\<lparr>Action := ''apply_scp''\<rparr>))
     = Returned '''' (Some ''error loading config file: no such file'')
   \<and> returned (fst (HandleRequest healthy_env (demo_request\<lparr>TargetAccountID := ''''\<rparr>)))
   \<and> fst (HandleRequest no_session_env demo_request) = Panicked ''bad CA bundle''"
proof -
  have 1: "fst (HandleRequest healthy_env demo_request)
     = Returned ''Policies detached from role victim in account 111'' None"
    by (simp add: HandleRequest_def manageRole_def healthy_env_def demo_request_def
          demo_policies_def Let_def ApplySCP_def DetachPolicies_def DeleteRole_def
          DefaultRegion_def split: prod.splits)
  have 2: "fst (HandleRequest no_config_env (demo_request\<lparr>Action := ''apply_scp''\<rparr>))
     = Returned '''' (Some ''error loading config file: no such file'')"
    by (simp add: HandleRequest_def loadConfig_def no_config_env_def healthy_env_def
          demo_request_def Let_def ApplySCP_def DefaultRegion_def)
  have 3: "TargetAccountID (demo_request\<lparr>TargetAccountID := ''''\<rparr>) = ''''"
    by simp
  have 4: "TargetAccountID demo_request \<noteq> '''' \<and> RoleToAssume demo_request \<noteq> ''''
      \<and> session_NewSession no_session_env []
           (if Region demo_request = '''' then DefaultRegion else Region demo_request)
         = Some ''bad CA bundle''"
    by (simp add: demo_request_def no_session_env_def healthy_env_def)
  from C10_message_xor_error [of healthy_env demo_request] 1
  have a: "''Policies detached from role victim in account 111'' \<noteq> ''''"
    by simp
  from C10_message_xor_error [of healthy_env "demo_request\<lparr>TargetAccountID := ''''\<rparr>"] 3
  have b: "returned (fst (HandleRequest healthy_env (demo_request\<lparr>TargetAccountID := ''''\<rparr>)))"
    by blast
  from C10_message_xor_error [of no_session_env demo_request] 4
  have c: "fst (HandleRequest no_session_env demo_request) = Panicked ''bad CA bundle''"
    by blast
  from 1 2 a b c show ?thesis by blast
qed

theorem C10_counterexample:
  "TargetAccountID demo_request \<noteq> '''' \<and> RoleToAssume demo_request \<noteq> ''''
   \<and> HandleRequest no_session_env demo_request
       = (Panicked ''bad CA bundle'',
          [(Session_NewSession ''us-east-1'', Failed ''bad CA bundle'')])
   \<and> \<not> returned (fst (HandleRequest no_session_env demo_request))"
  by (simp add: HandleRequest_def demo_request_def healthy_env_def no_session_env_def
        DefaultRegion_def)

section \<open>The policy remediation executor\<close>




text \<open>
  Claim C5. Take a role \<open>r\<close> for which every provider call \<open>manageRole\<close> makes succeeds:
  listing the attached managed policies of \<open>r\<close> returns \<open>ps\<close> (\<open>N = length ps\<close>), each
  detach of a listed policy succeeds when its turn comes, listing the inline policies of
  \<open>r\<close> then returns \<open>ns\<close> (\<open>M = length ns\<close>), and each delete of a listed inline policy
  succeeds when its turn comes. (The providers may answer by the history of calls, so
  each hypothesis is about the answer at the moment the call is made.) Then the run of
  \<open>manageRole\<close> with action \<open>detach_policies\<close> is exactly: list the attached policies of
  \<open>r\<close>, detach each of \<open>ps\<close> from \<open>r\<close> in order, list the inline policies of \<open>r\<close>, delete
  each of \<open>ns\<close> from \<open>r\<close> in order. So it issues \<open>N\<close> detach calls, \<open>M\<close> inline-policy
  delete calls and no call deleting the role, and it returns the message
  \<open>Policies detached from role R in account A\<close> with a nil error. The fixed text of that
  message says nothing of deletion: unless the role name or the account id themselves
  contain \<open>delet\<close>, the message does not contain it.
\<close>

theorem C5_detach_policies:
  assumes svc: "svc = assumed_client sess acct role"
    and attached: "iam_ListAttachedRolePolicies env tr svc r = Inr ps"
    and detach: "\<forall>i < length ps.
          iam_DetachRolePolicy env
            (tr @ (IAM_ListAttachedRolePolicies svc r, Policies ps)
                  # map (detach_ok svc r) (take i ps))
            svc r (PolicyArn (ps ! i)) = None"
    and inline: "iam_ListRolePolicies env
          (tr @ (IAM_ListAttachedRolePolicies svc r, Policies ps) # map (detach_ok svc r) ps)
          svc r = Inr ns"
    and delete: "\<forall>j < length ns.
          iam_DeleteRolePolicy env
            (tr @ (IAM_ListAttachedRolePolicies svc r, Policies ps) # map (detach_ok svc r) ps
                @ (IAM_ListRolePolicies svc r, Names ns) # map (delete_ok svc r) (take j ns))
            svc r (ns ! j) = None"
  shows "manageRole env tr sess DetachPolicies acct role r =
           ((''Policies detached from role '' @ r @ '' in account '' @ acct, None),
            tr @ (IAM_ListAttachedRolePolicies svc r, Policies ps) # map (detach_ok svc r) ps
               @ (IAM_ListRolePolicies svc r, Names ns) # map (delete_ok svc r) ns)
       \<and> calls is_detach (issued tr (snd (manageRole env tr sess DetachPolicies acct role r)))
           = map (detach_ok svc r) ps
       \<and> length (calls is_detach
                   (issued tr (snd (manageRole env tr sess DetachPolicies acct role r))))
           = length ps
       \<and> calls is_inline_delete
             (issued tr (snd (manageRole env tr sess DetachPolicies acct role r)))
           = map (delete_ok svc r) ns
       \<and> length (calls is_inline_delete
                   (issued tr (snd (manageRole env tr sess DetachPolicies acct role r))))
           = length ns
       \<and> calls is_role_delete
             (issued tr (snd (manageRole env tr sess DetachPolicies acct role r))) = []
       \<and> (\<not> sublist ''delet'' r \<and> \<not> sublist ''delet'' acct \<longrightarrow>
            \<not> sublist ''delet''
                 (fst (fst (manageRole env tr sess DetachPolicies acct role r))))"
proof -
  have run: "manageRole env tr sess DetachPolicies acct role r =
      ((''Policies detached from role '' @ r @ '' in account '' @ acct, None),
       tr @ cleanup_events svc r ps ns)"
    using manageRole_cleanup_ok [OF svc attached detach inline delete, of DetachPolicies]
    by (simp add: actions_distinct)
  have silent: "\<not> sublist ''delet'' r \<and> \<not> sublist ''delet'' acct \<longrightarrow>
      \<not> sublist ''delet'' (fst (fst (manageRole env tr sess DetachPolicies acct role r)))"
    unfolding run fst_conv using detached_message_silent by blast
  have shape: "tr @ cleanup_events svc r ps ns =
      tr @ (IAM_ListAttachedRolePolicies svc r, Policies ps) # map (detach_ok svc r) ps
         @ (IAM_ListRolePolicies svc r, Names ns) # map (delete_ok svc r) ns"
    by (simp add: cleanup_events_def)
  from run shape silent show ?thesis
    by (simp add: calls_cleanup_events [unfolded cleanup_events_def] calls_detach_ok
          calls_delete_ok)
qed

theorem C5_detach_policies_witness:
  "manageRole healthy_env [] demo_session DetachPolicies ''111'' ''ks'' ''victim'' =
     ((''Policies detached from role victim in account 111'', None),
      [(IAM_ListAttachedRolePolicies
          \<lparr>client_region = ''us-east-1'', client_creds = ''arn:aws:iam::111:role/ks''\<rparr>
          ''victim'', Policies demo_policies),
       (IAM_DetachRolePolicy
          \<lparr>client_region = ''us-east-1'', client_creds = ''arn:aws:iam::111:role/ks''\<rparr>
          ''victim'' ''arn:p1'', Done),
       (IAM_DetachRolePolicy
          \<lparr>client_region = ''us-east-1'', client_creds = ''arn:aws:iam::111:role/ks''\<rparr>
          ''victim'' ''arn:p2'', Done),
       (IAM_ListRolePolicies
          \<lparr>client_region = ''us-east-1'', client_creds = ''arn:aws:iam::111:role/ks''\<rparr>
          ''victim'', Names [''inline1'']),
       (IAM_DeleteRolePolicy
          \<lparr>client_region = ''us-east-1'', client_creds = ''arn:aws:iam::111:role/ks''\<rparr>
          ''victim'' ''inline1'', Done)])
   \<and> length (calls is_detach (issued [] (snd (manageRole healthy_env [] demo_session
                DetachPolicies ''111'' ''ks'' ''victim'')))) = 2
   \<and> length (calls is_inline_delete (issued [] (snd (manageRole healthy_env [] demo_session
                DetachPolicies ''111'' ''ks'' ''victim'')))) = 1
   \<and> calls is_role_delete (issued [] (snd (manageRole healthy_env [] demo_session
                DetachPolicies ''111'' ''ks'' ''victim''))) = []
   \<and> \<not> sublist ''delet'' (fst (fst (manageRole healthy_env [] demo_session DetachPolicies
                ''111'' ''ks'' ''victim'')))"
proof -
  let ?c = "assumed_client demo_session ''111'' ''ks''"
  have attached: "iam_ListAttachedRolePolicies healthy_env [] ?c ''victim'' = Inr demo_policies"
    by (simp add: healthy_env_def)
  have detach: "\<forall>i < length demo_policies.
      iam_DetachRolePolicy healthy_env
        ([] @ (IAM_ListAttachedRolePolicies ?c ''victim'', Policies demo_policies)
              # map (detach_ok ?c ''victim'') (take i demo_policies))
        ?c ''victim'' (PolicyArn (demo_policies ! i)) = None"
    by (simp add: healthy_env_def)
  have inline: "iam_ListRolePolicies healthy_env
      ([] @ (IAM_ListAttachedRolePolicies ?c ''victim'', Policies demo_policies)
            # map (detach_ok ?c ''victim'') demo_policies)
      ?c ''victim'' = Inr [''inline1'']"
    by (simp add: healthy_env_def)
  have delete: "\<forall>j < length [''inline1''].
      iam_DeleteRolePolicy healthy_env
        ([] @ (IAM_ListAttachedRolePolicies ?c ''victim'', Policies demo_policies)
              # map (detach_ok ?c ''victim'') demo_policies
            @ (IAM_ListRolePolicies ?c ''victim'', Names [''inline1''])
              # map (delete_ok ?c ''victim'') (take j [''inline1'']))
        ?c ''victim'' ([''inline1''] ! j) = None"
    by (simp add: healthy_env_def)
  from C5_detach_policies [OF refl attached detach inline delete]
  have run: "manageRole healthy_env [] demo_session DetachPolicies ''111'' ''ks'' ''victim'' =
           ((''Policies detached from role '' @ ''victim'' @ '' in account '' @ ''111'', None),
            [] @ (IAM_ListAttachedRolePolicies ?c ''victim'', Policies demo_policies)
                 # map (detach_ok ?c ''victim'') demo_policies
               @ (IAM_ListRolePolicies ?c ''victim'', Names [''inline1''])
                 # map (delete_ok ?c ''victim'') [''inline1''])"
    by (rule conjunct1)
  show ?thesis
    unfolding run fst_conv snd_conv
    by (simp add: demo_policies_def demo_session_def assumed_client_def
          detach_ok_def delete_ok_def issued_def sublist_Cons_right)
qed

text \<open>
  Claim C6. Under the hypotheses of C5, and the role delete succeeding when it is made,
  the run of \<open>manageRole\<close> with action \<open>delete_role\<close> is exactly: list the attached
  policies of \<open>r\<close>, detach each of \<open>ps\<close>, list the inline policies, delete each of \<open>ns\<close>,
  then delete the role \<open>r\<close>. Its calls are those of the \<open>detach_policies\<close> run in the
  same environment followed by the one call deleting the role: \<open>N\<close> detaches, \<open>M\<close> inline
  deletes, one role delete, the last call of the run. The result is the message
  \<open>Role R and its policies are detached and deleted in account A\<close> with a nil error; it
  contains the account id, the word \<open>detached\<close> and the word \<open>deleted\<close>. And in any
  environment and for any action, a call deleting the role occurs in a run of
  \<open>manageRole\<close> only with action \<open>delete_role\<close>, only for the role \<open>r\<close>, and only as
  the last call after a complete cleanup whose calls all succeeded.
\<close>

theorem C6_delete_role:
  assumes svc: "svc = assumed_client sess acct role"
    and attached: "iam_ListAttachedRolePolicies env tr svc r = Inr ps"
    and detach: "\<forall>i < length ps.
          iam_DetachRolePolicy env
            (tr @ (IAM_ListAttachedRolePolicies svc r, Policies ps)
                  # map (detach_ok svc r) (take i ps))
            svc r (PolicyArn (ps ! i)) = None"
    and inline: "iam_ListRolePolicies env
          (tr @ (IAM_ListAttachedRolePolicies svc r, Policies ps) # map (detach_ok svc r) ps)
          svc r = Inr ns"
    and delete: "\<forall>j < length ns.
          iam_DeleteRolePolicy env
            (tr @ (IAM_ListAttachedRolePolicies svc r, Policies ps) # map (detach_ok svc r) ps
                @ (IAM_ListRolePolicies svc r, Names ns) # map (delete_ok svc r) (take j ns))
            svc r (ns ! j) = None"
    and delete_role: "iam_DeleteRole env
          (tr @ (IAM_ListAttachedRolePolicies svc r, Policies ps) # map (detach_ok svc r) ps
              @ (IAM_ListRolePolicies svc r, Names ns) # map (delete_ok svc r) ns)
          svc r = None"
  shows "manageRole env tr sess DeleteRole acct role r =
           ((''Role '' @ r @ '' and its policies are detached and deleted in account '' @ acct,
             None),
            tr @ (IAM_ListAttachedRolePolicies svc r, Policies ps) # map (detach_ok svc r) ps
               @ (IAM_ListRolePolicies svc r, Names ns) # map (delete_ok svc r) ns
               @ [(IAM_DeleteRole svc r, Done)])
       \<and> issued tr (snd (manageRole env tr sess DeleteRole acct role r))
           = issued tr (snd (manageRole env tr sess DetachPolicies acct role r))
             @ [(IAM_DeleteRole svc r, Done)]
       \<and> calls is_detach (issued tr (snd (manageRole env tr sess DeleteRole acct role r)))
           = map (detach_ok svc r) ps
       \<and> length (calls is_detach
                   (issued tr (snd (manageRole env tr sess DeleteRole acct role r))))
           = length ps
       \<and> calls is_inline_delete
             (issued tr (snd (manageRole env tr sess DeleteRole acct role r)))
           = map (delete_ok svc r) ns
       \<and> length (calls is_inline_delete
                   (issued tr (snd (manageRole env tr sess DeleteRole acct role r))))
           = length ns
       \<and> calls is_role_delete (issued tr (snd (manageRole env tr sess DeleteRole acct role r)))
           = [(IAM_DeleteRole svc r, Done)]
       \<and> sublist acct (fst (fst (manageRole env tr sess DeleteRole acct role r)))
       \<and> sublist ''detached'' (fst (fst (manageRole env tr sess DeleteRole acct role r)))
       \<and> sublist ''deleted'' (fst (fst (manageRole env tr sess DeleteRole acct role r)))
       \<and> (\<forall>env' action c resp.
             (c, resp) \<in> set (issued tr (snd (manageRole env' tr sess action acct role r)))
             \<and> is_role_delete c \<longrightarrow>
             action = DeleteRole \<and> c = IAM_DeleteRole svc r
             \<and> (\<exists>ps' ns'. issued tr (snd (manageRole env' tr sess action acct role r))
                   = cleanup_events svc r ps' ns' @ [(c, resp)]))"
proof -
  have shape: "cleanup_events svc r ps ns =
      (IAM_ListAttachedRolePolicies svc r, Policies ps) # map (detach_ok svc r) ps
         @ (IAM_ListRolePolicies svc r, Names ns) # map (delete_ok svc r) ns"
    by (simp add: cleanup_events_def)
  from delete_role have dr: "iam_DeleteRole env (tr @ cleanup_events svc r ps ns) svc r = None"
    by (simp add: shape)
  have run: "manageRole env tr sess DeleteRole acct role r =
      ((''Role '' @ r @ '' and its policies are detached and deleted in account '' @ acct, None),
       tr @ cleanup_events svc r ps ns @ [(IAM_DeleteRole svc r, Done)])"
    using manageRole_cleanup_ok [OF svc attached detach inline delete, of DeleteRole] dr
    by simp
  have det: "manageRole env tr sess DetachPolicies acct role r =
      ((''Policies detached from role '' @ r @ '' in account '' @ acct, None),
       tr @ cleanup_events svc r ps ns)"
    using manageRole_cleanup_ok [OF svc attached detach inline delete, of DetachPolicies]
    by (simp add: actions_distinct)
  have msg: "sublist acct
      (''Role '' @ r @ '' and its policies are detached and deleted in account '' @ acct)"
    by (metis append.assoc sublist_append_leftI)
  have w1: "sublist ''detached''
      ((''Role '' @ r @ '' and its policies are '') @ ''detached''
         @ ('' and deleted in account '' @ acct))"
    by (rule sublist_appendI)
  have w2: "sublist ''deleted''
      ((''Role '' @ r @ '' and its policies are detached and '') @ ''deleted''
         @ ('' in account '' @ acct))"
    by (rule sublist_appendI)
  have only_after: "\<forall>env' action c resp.
             (c, resp) \<in> set (issued tr (snd (manageRole env' tr sess action acct role r)))
             \<and> is_role_delete c \<longrightarrow>
             action = DeleteRole \<and> c = IAM_DeleteRole svc r
             \<and> (\<exists>ps' ns'. issued tr (snd (manageRole env' tr sess action acct role r))
                   = cleanup_events svc r ps' ns' @ [(c, resp)])"
    using role_delete_last [OF surjective_pairing svc] by blast
  have counts: "calls is_detach (cleanup_events svc r ps ns @ [(IAM_DeleteRole svc r, Done)])
        = map (detach_ok svc r) ps"
    "calls is_inline_delete (cleanup_events svc r ps ns @ [(IAM_DeleteRole svc r, Done)])
        = map (delete_ok svc r) ns"
    "calls is_role_delete (cleanup_events svc r ps ns @ [(IAM_DeleteRole svc r, Done)])
        = [(IAM_DeleteRole svc r, Done)]"
    by (simp_all add: calls_cleanup_events)
  have first: "manageRole env tr sess DeleteRole acct role r =
           ((''Role '' @ r @ '' and its policies are detached and deleted in account '' @ acct,
             None),
            tr @ (IAM_ListAttachedRolePolicies svc r, Policies ps) # map (detach_ok svc r) ps
               @ (IAM_ListRolePolicies svc r, Names ns) # map (delete_ok svc r) ns
               @ [(IAM_DeleteRole svc r, Done)])"
    using run by (simp add: shape)
  have rest: "issued tr (snd (manageRole env tr sess DeleteRole acct role r))
           = issued tr (snd (manageRole env tr sess DetachPolicies acct role r))
             @ [(IAM_DeleteRole svc r, Done)]
       \<and> calls is_detach (issued tr (snd (manageRole env tr sess DeleteRole acct role r)))
           = map (detach_ok svc r) ps
       \<and> length (calls is_detach
                   (issued tr (snd (manageRole env tr sess DeleteRole acct role r))))
           = length ps
       \<and> calls is_inline_delete
             (issued tr (snd (manageRole env tr sess DeleteRole acct role r)))
           = map (delete_ok svc r) ns
       \<and> length (calls is_inline_delete
                   (issued tr (snd (manageRole env tr sess DeleteRole acct role r))))
           = length ns
       \<and> calls is_role_delete (issued tr (snd (manageRole env tr sess DeleteRole acct role r)))
           = [(IAM_DeleteRole svc r, Done)]
       \<and> sublist acct (fst (fst (manageRole env tr sess DeleteRole acct role r)))
       \<and> sublist ''detached'' (fst (fst (manageRole env tr sess DeleteRole acct role r)))
       \<and> sublist ''deleted'' (fst (fst (manageRole env tr sess DeleteRole acct role r)))"
    unfolding run det fst_conv snd_conv issued_append
    using counts msg w1 w2 by simp
  from first rest only_after show ?thesis by blast
qed

theorem C6_delete_role_witness:
  "manageRole healthy_env [] demo_session DeleteRole ''111'' ''ks'' ''victim'' =
     ((''Role victim and its policies are detached and deleted in account 111'', None),
      [(IAM_ListAttachedRolePolicies
          \<lparr>client_region = ''us-east-1'', client_creds = ''arn:aws:iam::111:role/ks''\<rparr>
          ''victim'', Policies demo_policies),
       (IAM_DetachRolePolicy
          \<lparr>client_region = ''us-east-1'', client_creds = ''arn:aws:iam::111:role/ks''\<rparr>
          ''victim'' ''arn:p1'', Done),
       (IAM_DetachRolePolicy
          \<lparr>client_region = ''us-east-1'', client_creds = ''arn:aws:iam::111:role/ks''\<rparr>
          ''victim'' ''arn:p2'', Done),
       (IAM_ListRolePolicies
          \<lparr>client_region = ''us-east-1'', client_creds = ''arn:aws:iam::111:role/ks''\<rparr>
          ''victim'', Names [''inline1'']),
       (IAM_DeleteRolePolicy
          \<lparr>client_region = ''us-east-1'', client_creds = ''arn:aws:iam::111:role/ks''\<rparr>
          ''victim'' ''inline1'', Done),
       (IAM_DeleteRole
          \<lparr>client_region = ''us-east-1'', client_creds = ''arn:aws:iam::111:role/ks''\<rparr>
          ''victim'', Done)])
   \<and> length (calls is_detach (issued [] (snd (manageRole healthy_env [] demo_session
                DeleteRole ''111'' ''ks'' ''victim'')))) = 2
   \<and> length (calls is_inline_delete (issued [] (snd (manageRole healthy_env [] demo_session
                DeleteRole ''111'' ''ks'' ''victim'')))) = 1
   \<and> length (calls is_role_delete (issued [] (snd (manageRole healthy_env [] demo_session
                DeleteRole ''111'' ''ks'' ''victim'')))) = 1
   \<and> sublist ''111'' (fst (fst (manageRole healthy_env [] demo_session DeleteRole
                ''111'' ''ks'' ''victim'')))
   \<and> sublist ''deleted'' (fst (fst (manageRole healthy_env [] demo_session DeleteRole
                ''111'' ''ks'' ''victim'')))"
proof -
  let ?c = "assumed_client demo_session ''111'' ''ks''"
  have attached: "iam_ListAttachedRolePolicies healthy_env [] ?c ''victim'' = Inr demo_policies"
    by (simp add: healthy_env_def)
  have detach: "\<forall>i < length demo_policies.
      iam_DetachRolePolicy healthy_env
        ([] @ (IAM_ListAttachedRolePolicies ?c ''victim'', Policies demo_policies)
              # map (detach_ok ?c ''victim'') (take i demo_policies))
        ?c ''victim'' (PolicyArn (demo_policies ! i)) = None"
    by (simp add: healthy_env_def)
  have inline: "iam_ListRolePolicies healthy_env
      ([] @ (IAM_ListAttachedRolePolicies ?c ''victim'', Policies demo_policies)
            # map (detach_ok ?c ''victim'') demo_policies)
      ?c ''victim'' = Inr [''inline1'']"
    by (simp add: healthy_env_def)
  have delete: "\<forall>j < length [''inline1''].
      iam_DeleteRolePolicy healthy_env
        ([] @ (IAM_ListAttachedRolePolicies ?c ''victim'', Policies demo_policies)
              # map (detach_ok ?c ''victim'') demo_policies
            @ (IAM_ListRolePolicies ?c ''victim'', Names [''inline1''])
              # map (delete_ok ?c ''victim'') (take j [''inline1'']))
        ?c ''victim'' ([''inline1''] ! j) = None"
    by (simp add: healthy_env_def)
  have delete_role: "iam_DeleteRole healthy_env
      ([] @ (IAM_ListAttachedRolePolicies ?c ''victim'', Policies demo_policies)
            # map (detach_ok ?c ''victim'') demo_policies
          @ (IAM_ListRolePolicies ?c ''victim'', Names [''inline1''])
            # map (delete_ok ?c ''victim'') [''inline1''])
      ?c ''victim'' = None"
    by (simp add: healthy_env_def)
  note inst = C6_delete_role [OF refl attached detach inline delete delete_role]
  from inst
  have run: "manageRole healthy_env [] demo_session DeleteRole ''111'' ''ks'' ''victim'' =
           ((''Role '' @ ''victim'' @ '' and its policies are detached and deleted in account ''
               @ ''111'', None),
            [] @ (IAM_ListAttachedRolePolicies ?c ''victim'', Policies demo_policies)
                 # map (detach_ok ?c ''victim'') demo_policies
               @ (IAM_ListRolePolicies ?c ''victim'', Names [''inline1''])
                 # map (delete_ok ?c ''victim'') [''inline1'']
               @ [(IAM_DeleteRole ?c ''victim'', Done)])"
    by (rule conjunct1)
  from inst
  have words: "sublist ''111'' (fst (fst (manageRole healthy_env [] demo_session DeleteRole
                ''111'' ''ks'' ''victim'')))
      \<and> sublist ''deleted'' (fst (fst (manageRole healthy_env [] demo_session DeleteRole
                ''111'' ''ks'' ''victim'')))"
    by blast
  have "manageRole healthy_env [] demo_session DeleteRole ''111'' ''ks'' ''victim'' =
     ((''Role victim and its policies are detached and deleted in account 111'', None),
      [(IAM_ListAttachedRolePolicies
          \<lparr>client_region = ''us-east-1'', client_creds = ''arn:aws:iam::111:role/ks''\<rparr>
          ''victim'', Policies demo_policies),
       (IAM_DetachRolePolicy
          \<lparr>client_region = ''us-east-1'', client_creds = ''arn:aws:iam::111:role/ks''\<rparr>
          ''victim'' ''arn:p1'', Done),
       (IAM_DetachRolePolicy
          \<lparr>client_region = ''us-east-1'', client_creds = ''arn:aws:iam::111:role/ks''\<rparr>
          ''victim'' ''arn:p2'', Done),
       (IAM_ListRolePolicies
          \<lparr>client_region = ''us-east-1'', client_creds = ''arn:aws:iam::111:role/ks''\<rparr>
          ''victim'', Names [''inline1'']),
       (IAM_DeleteRolePolicy
          \<lparr>client_region = ''us-east-1'', client_creds = ''arn:aws:iam::111:role/ks''\<rparr>
          ''victim'' ''inline1'', Done),
       (IAM_DeleteRole
          \<lparr>client_region = ''us-east-1'', client_creds = ''arn:aws:iam::111:role/ks''\<rparr>
          ''victim'', Done)])
   \<and> length (calls is_detach (issued [] (snd (manageRole healthy_env [] demo_session
                DeleteRole ''111'' ''ks'' ''victim'')))) = 2
   \<and> length (calls is_inline_delete (issued [] (snd (manageRole healthy_env [] demo_session
                DeleteRole ''111'' ''ks'' ''victim'')))) = 1
   \<and> length (calls is_role_delete (issued [] (snd (manageRole healthy_env [] demo_session
                DeleteRole ''111'' ''ks'' ''victim'')))) = 1"
    unfolding run fst_conv snd_conv
    by (simp add: demo_policies_def demo_session_def assumed_client_def
          detach_ok_def delete_ok_def issued_def)
  with words show ?thesis by blast
qed

section \<open>The organization containment executor\<close>

text \<open>
  Claim C3. Take any run of \<open>applySCP\<close> (the configuration is loaded: it is an argument).
  The run issues exactly one create-policy call, and it is the first call: the document's
  raw text under the fixed name, description and type. An attach-policy call, if any,
  is the second and last call of the run, comes right after a create call that
  succeeded, and attaches the policy that call created to the target account. If the
  attach call fails with \<open>e\<close>, the result is the error
  \<open>error attaching SCP to account A: e\<close> and the failed attach is the last of the two
  calls of the run: nothing is called to remove the policy just created. If the run
  returns a nil error, its calls are the successful create and the successful attach, and
  the message is \<open>SCP applied to account A with policy ID P\<close>, which contains the target
  account id and the id of the created policy.
\<close>

theorem C3_apply_scp:
  assumes run: "applySCP env tr sess mgmt target role config = (res, tr')"
    and svc: "svc = assumed_client sess mgmt role"
  shows "length (calls is_create_policy (issued tr tr')) = 1
       \<and> fst (hd (issued tr tr')) = scp_create_call svc config
       \<and> (\<forall>c resp. (c, resp) \<in> set (issued tr tr') \<and> is_attach_policy c \<longrightarrow>
             (\<exists>pid. issued tr tr' = [(scp_create_call svc config, Created pid), (c, resp)]
                    \<and> c = Org_AttachPolicy svc pid target))
       \<and> (\<forall>c e. (c, Failed e) \<in> set (issued tr tr') \<and> is_attach_policy c \<longrightarrow>
             res = ('''', Some (''error attaching SCP to account '' @ target @ '': '' @ e))
             \<and> last (issued tr tr') = (c, Failed e)
             \<and> length (issued tr tr') = 2)
       \<and> (snd res = None \<longrightarrow>
             (\<exists>pid. issued tr tr' = [(scp_create_call svc config, Created pid),
                                     (Org_AttachPolicy svc pid target, Done)]
                    \<and> fst res = ''SCP applied to account '' @ target @ '' with policy ID '' @ pid
                    \<and> sublist target (fst res) \<and> sublist pid (fst res)))"
  using run svc
proof (cases rule: applySCP_cases)
  case (create_failed e)
  then show ?thesis by (simp add: scp_create_call_def)
next
  case (attach_failed pid e)
  then show ?thesis by (auto simp: scp_create_call_def)
next
  case (applied pid)
  have "sublist target ((''SCP applied to account '') @ target @ ('' with policy ID '' @ pid))"
    by (rule sublist_appendI)
  moreover have "sublist pid ((''SCP applied to account '' @ target @ '' with policy ID '') @ pid)"
    by (rule sublist_append_leftI)
  ultimately show ?thesis using applied by (auto simp: scp_create_call_def)
qed

lemma no_attach_run:
  "applySCP no_attach_env [] demo_session ''999'' ''111'' ''ks'' demo_config
     = (('''', Some ''error attaching SCP to account 111: denied''),
        [(scp_create_call (assumed_client demo_session ''999'' ''ks'') demo_config,
          Created ''p-1''),
         (Org_AttachPolicy (assumed_client demo_session ''999'' ''ks'') ''p-1'' ''111'',
          Failed ''denied'')])"
  by (simp add: applySCP_def no_attach_env_def healthy_env_def assumed_client_def
        scp_create_call_def Let_def demo_config_def demo_session_def)

lemma healthy_apply_run:
  "applySCP healthy_env [] demo_session ''999'' ''111'' ''ks'' demo_config
     = ((''SCP applied to account 111 with policy ID p-1'', None),
        [(scp_create_call (assumed_client demo_session ''999'' ''ks'') demo_config,
          Created ''p-1''),
         (Org_AttachPolicy (assumed_client demo_session ''999'' ''ks'') ''p-1'' ''111'',
          Done)])"
  by (simp add: applySCP_def healthy_env_def assumed_client_def
        scp_create_call_def Let_def demo_config_def demo_session_def)

theorem C3_apply_scp_witness:
  "applySCP no_attach_env [] demo_session ''999'' ''111'' ''ks'' demo_config
     = (('''', Some ''error attaching SCP to account 111: denied''),
        [(scp_create_call (assumed_client demo_session ''999'' ''ks'') demo_config,
          Created ''p-1''),
         (Org_AttachPolicy (assumed_client demo_session ''999'' ''ks'') ''p-1'' ''111'',
          Failed ''denied'')])
   \<and> length (calls is_create_policy (issued []
        (snd (applySCP no_attach_env [] demo_session ''999'' ''111'' ''ks'' demo_config)))) = 1
   \<and> sublist ''p-1''
        (fst (fst (applySCP healthy_env [] demo_session ''999'' ''111'' ''ks'' demo_config)))
   \<and> sublist ''111''
        (fst (fst (applySCP healthy_env [] demo_session ''999'' ''111'' ''ks'' demo_config)))"
  using C3_apply_scp [OF no_attach_run refl] C3_apply_scp [OF healthy_apply_run refl]
    no_attach_run healthy_apply_run
  by (simp add: issued_def)

section \<open>Whose role is assumed\<close>

text \<open>
  Claim C8. Every call of a run of \<open>applySCP\<close> is made with credentials for the role
  \<open>arn:aws:iam::M:role/R\<close>, \<open>M\<close> the management account and \<open>R\<close> the role to assume; every
  call of a run of \<open>manageRole\<close> with credentials for \<open>arn:aws:iam::T:role/R\<close>, \<open>T\<close> the
  target account; each run makes at least one call. The partition is the constant
  \<open>aws\<close>. For \<open>HandleRequest\<close>: every cloud call of a run carries the ARN built from the
  request's \<open>org_management_account\<close> when the action is \<open>apply_scp\<close>, and from its
  \<open>target_account_id\<close> otherwise, with the request's \<open>role_to_assume\<close>.
\<close>

theorem C8_assumed_role:
  "(\<forall>ev \<in> set (issued tr (snd (applySCP env tr sess mgmt target role config))).
       call_client (fst ev) =
         Some \<lparr>client_region = sess_region sess,
               client_creds = ''arn:aws:iam::'' @ mgmt @ '':role/'' @ role\<rparr>)
   \<and> issued tr (snd (applySCP env tr sess mgmt target role config)) \<noteq> []
   \<and> (\<forall>ev \<in> set (issued tr (snd (manageRole env tr sess action target role r))).
       call_client (fst ev) =
         Some \<lparr>client_region = sess_region sess,
               client_creds = ''arn:aws:iam::'' @ target @ '':role/'' @ role\<rparr>)
   \<and> issued tr (snd (manageRole env tr sess action target role r)) \<noteq> []
   \<and> (\<forall>ev \<in> set (snd (HandleRequest env request)). \<forall>c. call_client (fst ev) = Some c \<longrightarrow>
         client_creds c =
           ''arn:aws:iam::''
             @ (if Action request = ApplySCP then OrgManagementAccountID request
                else TargetAccountID request)
             @ '':role/'' @ RoleToAssume request)"
proof -
  obtain res1 tr1 where r1: "applySCP env tr sess mgmt target role config = (res1, tr1)"
    by fastforce
  obtain res2 tr2 where r2: "manageRole env tr sess action target role r = (res2, tr2)"
    by fastforce
  obtain out tr3 where r3: "HandleRequest env request = (out, tr3)"
    by fastforce
  from applySCP_extends [OF r1 refl] r1
  have a: "(\<forall>ev \<in> set (issued tr (snd (applySCP env tr sess mgmt target role config))).
       call_client (fst ev) =
         Some \<lparr>client_region = sess_region sess,
               client_creds = ''arn:aws:iam::'' @ mgmt @ '':role/'' @ role\<rparr>)
   \<and> issued tr (snd (applySCP env tr sess mgmt target role config)) \<noteq> []"
    by (auto simp: assumed_client_def)
  from manageRole_extends [OF r2 refl] r2
  have b: "(\<forall>ev \<in> set (issued tr (snd (manageRole env tr sess action target role r))).
       call_client (fst ev) =
         Some \<lparr>client_region = sess_region sess,
               client_creds = ''arn:aws:iam::'' @ target @ '':role/'' @ role\<rparr>)
   \<and> issued tr (snd (manageRole env tr sess action target role r)) \<noteq> []"
    by (auto simp: assumed_client_def)
  have c: "\<forall>ev \<in> set tr3. \<forall>c. call_client (fst ev) = Some c \<longrightarrow>
         client_creds c =
           ''arn:aws:iam::''
             @ (if Action request = ApplySCP then OrgManagementAccountID request
                else TargetAccountID request)
             @ '':role/'' @ RoleToAssume request"
    using r3 refl refl
  proof (cases rule: HandleRequest_cases)
    case (no_config e)
    from no_config(6) show ?thesis
      by (cases rule: loadConfig_cases) (use no_config in auto)
  next
    case (apply_scp config trc s e)
    from apply_scp(6) obtain resp where
      trc: "trc = [(Session_NewSession (effective_region request), Done),
              (OS_ReadFile ''switch.conf'', resp)]"
      by (cases rule: loadConfig_cases) auto
    from applySCP_extends [OF apply_scp(7) refl] obtain new where
      "tr3 = trc @ new"
      "\<forall>ev \<in> set new. call_client (fst ev) =
         Some (assumed_client \<lparr>sess_region = effective_region request\<rparr>
                 (OrgManagementAccountID request) (RoleToAssume request))"
      by blast
    then show ?thesis
      by (rule clients_of_run) (simp_all add: trc assumed_client_def apply_scp(4))
  next
    case (manage_role s e)
    from manageRole_extends [OF manage_role(6) refl] obtain new where
      "tr3 = [(Session_NewSession (effective_region request), Done)] @ new"
      "\<forall>ev \<in> set new. call_client (fst ev) =
         Some (assumed_client \<lparr>sess_region = effective_region request\<rparr>
                 (TargetAccountID request) (RoleToAssume request))"
      by blast
    then show ?thesis
    proof (rule clients_of_run)
      from manage_role(4) actions_distinct have "Action request \<noteq> ApplySCP"
        by auto
      then show "client_creds (assumed_client \<lparr>sess_region = effective_region request\<rparr>
                 (TargetAccountID request) (RoleToAssume request)) = ''arn:aws:iam::''
             @ (if Action request = ApplySCP then OrgManagementAccountID request
                else TargetAccountID request)
             @ '':role/'' @ RoleToAssume request"
        by (simp add: assumed_client_def)
    qed simp
  qed auto
  from a b c r3 show ?thesis by simp
qed

theorem C8_assumed_role_witness:
  "call_client (fst (hd (issued []
       (snd (applySCP healthy_env [] demo_session ''999'' ''111'' ''ks'' demo_config)))))
     = Some \<lparr>client_region = ''us-east-1'', client_creds = ''arn:aws:iam::999:role/ks''\<rparr>
   \<and> call_client (fst (hd (issued []
       (snd (manageRole healthy_env [] demo_session DeleteRole ''111'' ''ks'' ''victim'')))))
     = Some \<lparr>client_region = ''us-east-1'', client_creds = ''arn:aws:iam::111:role/ks''\<rparr>"
  using C8_assumed_role [where tr = "[]" and env = healthy_env and sess = demo_session
      and mgmt = "''999''" and target = "''111''" and role = "''ks''" and config = demo_config
      and action = DeleteRole and r = "''victim''" and request = demo_request]
  by (simp add: demo_session_def hd_in_set)

end
